theory Spec2Isabelle
  imports Main "HOL-Library.Word"
begin

section \<open>Strings, bytes and hex values\<close>

text \<open>
  The search in \<^verbatim>\<open>src/services/flap/flap.ts\<close> works on JavaScript strings holding
  hex values (\<^verbatim>\<open>0x...\<close>) and on byte arrays. Strings are \<^typ>\<open>string\<close>; every string the
  search handles is ASCII (hex digits and the letter x), so a character is one code unit.
  A byte array is a list of 8-bit words.
\<close>

type_synonym byte = "8 word"
type_synonym Hex = string
type_synonym Address = string

text \<open>\<^verbatim>\<open>String.prototype.toLowerCase\<close> and \<^verbatim>\<open>toUpperCase\<close> on ASCII text.\<close>

definition toLowerCaseChar :: "char \<Rightarrow> char" where
  "toLowerCaseChar c =
     (let n = (of_char c :: nat) in if 65 \<le> n \<and> n \<le> 90 then char_of (n + 32) else c)"

definition toUpperCaseChar :: "char \<Rightarrow> char" where
  "toUpperCaseChar c =
     (let n = (of_char c :: nat) in if 97 \<le> n \<and> n \<le> 122 then char_of (n - 32) else c)"

definition toLowerCase :: "string \<Rightarrow> string" where
  "toLowerCase s = map toLowerCaseChar s"

text \<open>\<^verbatim>\<open>s.endsWith(t)\<close>: the last \<open>length t\<close> characters of \<open>s\<close> are \<open>t\<close>.\<close>

definition endsWith :: "string \<Rightarrow> string \<Rightarrow> bool" where
  "endsWith s t = (length t \<le> length s \<and> drop (length s - length t) s = t)"

text \<open>\<^verbatim>\<open>s.slice(2)\<close> on a string.\<close>

definition slice2 :: "string \<Rightarrow> string" where
  "slice2 s = drop 2 s"

subsection \<open>The hex codec of the viem library\<close>

text \<open>
  \<^verbatim>\<open>bytesToHex\<close>: \<^verbatim>\<open>0x\<close> followed by two lowercase hex digits for each byte.
\<close>

definition hexDigit :: "nat \<Rightarrow> char" where
  "hexDigit n = ''0123456789abcdef'' ! (n mod 16)"

definition hexes :: "byte \<Rightarrow> string" where
  "hexes b = [hexDigit (unat b div 16), hexDigit (unat b mod 16)]"

definition hexOfBytes :: "byte list \<Rightarrow> string" where
  "hexOfBytes bs = concat (map hexes bs)"

definition bytesToHex :: "byte list \<Rightarrow> Hex" where
  "bytesToHex bs = ''0x'' @ hexOfBytes bs"

text \<open>
  \<^verbatim>\<open>charCodeToBase16\<close>: the value of a hex digit of either case, \<open>None\<close> (undefined in the
  library) for any other character.
\<close>

definition charCodeToBase16 :: "char \<Rightarrow> nat option" where
  "charCodeToBase16 c =
     (let n = (of_char c :: nat) in
      if 48 \<le> n \<and> n \<le> 57 then Some (n - 48)
      else if 65 \<le> n \<and> n \<le> 70 then Some (n - 55)
      else if 97 \<le> n \<and> n \<le> 102 then Some (n - 87)
      else None)"

definition isHexChar :: "char \<Rightarrow> bool" where
  "isHexChar c = (charCodeToBase16 c \<noteq> None)"

text \<open>\<^verbatim>\<open>isHex(value)\<close> in strict mode: the regular expression \<^verbatim>\<open>^0x[0-9a-fA-F]*$\<close>.\<close>

definition isHex :: "string \<Rightarrow> bool" where
  "isHex v = (take 2 v = ''0x'' \<and> list_all isHexChar (drop 2 v))"

text \<open>
  \<^verbatim>\<open>hexToBytes\<close>: drop the \<^verbatim>\<open>0x\<close>, left-pad an odd number of digits with one \<^verbatim>\<open>0\<close>, and read
  the digits pairwise. The library raises on a character that is no hex digit; it is
  reached from \<^verbatim>\<open>toBytes\<close> only behind \<^verbatim>\<open>isHex\<close>, which admits hex digits only, so the
  digit value below is never asked for another character.
\<close>

definition nibble :: "char \<Rightarrow> nat" where
  "nibble c = (case charCodeToBase16 c of Some n \<Rightarrow> n | None \<Rightarrow> 0)"

fun bytesOfHex :: "string \<Rightarrow> byte list" where
  "bytesOfHex (a # b # cs) = of_nat (nibble a * 16 + nibble b) # bytesOfHex cs"
| "bytesOfHex _ = []"

definition hexToBytes :: "Hex \<Rightarrow> byte list" where
  "hexToBytes hex =
     (let hexString = drop 2 hex;
          hexString = (if odd (length hexString) then CHR ''0'' # hexString else hexString)
      in bytesOfHex hexString)"

text \<open>\<^verbatim>\<open>stringToBytes\<close>: the UTF-8 encoding, which on ASCII text is the character codes.\<close>

definition stringToBytes :: "string \<Rightarrow> byte list" where
  "stringToBytes s = map (\<lambda>c. of_nat (of_char c)) s"

text \<open>\<^verbatim>\<open>toBytes\<close> on a string: a strict hex value is decoded, any other string is encoded.\<close>

definition toBytes :: "string \<Rightarrow> byte list" where
  "toBytes v = (if isHex v then hexToBytes v else stringToBytes v)"

text \<open>\<^verbatim>\<open>toHex\<close> on a string is \<^verbatim>\<open>stringToHex\<close>: the hex of the encoded characters.\<close>

definition toHex :: "string \<Rightarrow> Hex" where
  "toHex s = bytesToHex (stringToBytes s)"

section \<open>Hashing and CREATE2 addresses\<close>

text \<open>
  The Keccak-256 digest is computed by a library outside the repository. The model takes
  it as a function \<open>K\<close> from the hashed bytes to the digest, an array of 32 bytes; every
  theorem below holds for each such function.
\<close>

typedef bytes32 = "{bs :: byte list. length bs = 32}"
  morphisms digestBytes Digest
  by (rule exI [of _ "replicate 32 0"]) simp

setup_lifting type_definition_bytes32

type_synonym digest = "byte list \<Rightarrow> bytes32"

text \<open>
  \<^verbatim>\<open>keccak256(value)\<close> on a string: a value starting with \<^verbatim>\<open>0x\<close> goes through
  \<^verbatim>\<open>toBytes\<close>, any other string is hashed as its encoding, which is what \<^verbatim>\<open>toBytes\<close>
  gives for it as well; the digest is returned as a hex value.
  \<^verbatim>\<open>keccak256(value, 'bytes')\<close> returns the digest bytes.
\<close>

definition keccak256_bytes :: "digest \<Rightarrow> string \<Rightarrow> byte list" where
  "keccak256_bytes K v = digestBytes (K (toBytes v))"

definition keccak256 :: "digest \<Rightarrow> string \<Rightarrow> Hex" where
  "keccak256 K v = bytesToHex (keccak256_bytes K v)"

datatype error =
    Error string
  | InvalidAddressError string
  | SizeExceedsPaddingSizeError nat
  | RpcError string

text \<open>\<^verbatim>\<open>isAddress(address, {strict: false})\<close>: the pattern \<^verbatim>\<open>^0x[a-fA-F0-9]{40}$\<close>.\<close>

definition isAddress :: "string \<Rightarrow> bool" where
  "isAddress a = (length a = 42 \<and> isHex a)"

text \<open>
  \<^verbatim>\<open>checksumAddress\<close> (EIP-55): hash the 40 lowercase digits as text and turn digit \<open>j\<close>
  to upper case where nibble \<open>j\<close> of the digest is 8 or more.
\<close>

definition digestNibble :: "byte list \<Rightarrow> nat \<Rightarrow> nat" where
  "digestNibble hash j =
     (if even j then unat (hash ! (j div 2)) div 16 else unat (hash ! (j div 2)) mod 16)"

definition checksumAddress :: "digest \<Rightarrow> Address \<Rightarrow> Address" where
  "checksumAddress K addr =
     (let hexAddress = toLowerCase (drop 2 addr);
          hash = digestBytes (K (stringToBytes hexAddress))
      in ''0x'' @ map (\<lambda>(j, c). if j < 40 \<and> 8 \<le> digestNibble hash j then toUpperCaseChar c else c)
                     (enumerate 0 hexAddress))"

definition getAddress :: "digest \<Rightarrow> string \<Rightarrow> error + Address" where
  "getAddress K a = (if \<not> isAddress a then Inl (InvalidAddressError a) else Inr (checksumAddress K a))"

text \<open>\<^verbatim>\<open>pad(bytes, {size: 32})\<close>: zeros on the left, an error when there are more bytes.\<close>

definition pad32 :: "byte list \<Rightarrow> error + byte list" where
  "pad32 bs =
     (if length bs > 32 then Inl (SizeExceedsPaddingSizeError (length bs))
      else Inr (replicate (32 - length bs) 0 @ bs))"

text \<open>
  \<^verbatim>\<open>getContractAddress\<close> with opcode \<^verbatim>\<open>CREATE2\<close>: the last 20 bytes (hex digits from
  position 24 on) of the digest of \<^verbatim>\<open>0xff\<close>, the deployer, the padded salt and the digest of
  the bytecode, as a checksummed address.
\<close>

definition getContractAddress :: "digest \<Rightarrow> Address \<Rightarrow> byte list \<Rightarrow> Hex \<Rightarrow> error + Address" where
  "getContractAddress K from salt bytecode =
     (case getAddress K from of Inl e \<Rightarrow> Inl e | Inr fromAddress \<Rightarrow>
      (case pad32 salt of Inl e \<Rightarrow> Inl e | Inr salt32 \<Rightarrow>
       (let bytecodeHash = keccak256_bytes K bytecode;
            hash = bytesToHex (digestBytes
                     (K (toBytes ''0xff'' @ toBytes fromAddress @ salt32 @ bytecodeHash)))
        in getAddress K (''0x'' @ drop 24 (drop 2 hash)))))"

section \<open>The vanity salt search\<close>

definition FLAP_PORTAL_ADDRESS :: Address where
  "FLAP_PORTAL_ADDRESS = ''0xe2cE6ab80874Fa9Fa2aAE65D277Dd6B8e65C9De0''"

definition NON_TAX_TOKEN_IMPL :: Address where
  "NON_TAX_TOKEN_IMPL = ''0x8B4329947e34B6d56D71A3385caC122BaDe7d78D''"

text \<open>
  The source's prediction closure reads the two module constants; the model passes the
  deployer and the implementation address as arguments, so that the properties are stated
  for every configuration, and \<open>findVanityTokenSalt\<close> below supplies the constants.
\<close>

definition proxyBytecode :: "Address \<Rightarrow> Hex" where
  "proxyBytecode impl =
     ''0x3d602d80600a3d3981f3363d3d373d3d3d363d73'' @
     toLowerCase (slice2 impl) @
     ''5af43d82803e903d91602b57fd5bf3''"

definition predictVanityTokenAddress :: "digest \<Rightarrow> Address \<Rightarrow> Address \<Rightarrow> Hex \<Rightarrow> error + Address" where
  "predictVanityTokenAddress K deployer impl salt =
     getContractAddress K deployer (toBytes salt) (proxyBytecode impl)"

text \<open>
  The seed: \<^verbatim>\<open>0x\<close> and the 64 lowercase hex digits of the 32 random bytes. The random
  bytes are an input of the model.
\<close>

definition seedOf :: "byte list \<Rightarrow> Hex" where
  "seedOf randomBytes = ''0x'' @ hexOfBytes randomBytes"

definition initialSalt :: "digest \<Rightarrow> byte list \<Rightarrow> Hex" where
  "initialSalt K randomBytes = keccak256 K (toHex (seedOf randomBytes))"

text \<open>
  \<^verbatim>\<open>iterations++\<close> on a JavaScript number: exact below \<open>2^53\<close>, where the sum rounds back
  to \<open>2^53\<close>.
\<close>

definition increment :: "nat \<Rightarrow> nat" where
  "increment n = (if n < 2 ^ 53 then n + 1 else n)"

text \<open>
  The \<^verbatim>\<open>while\<close> loop, started at the current salt and counter. It has no bound in the source:
  \<open>None\<close> is a loop that never ends, \<open>Some (Inl e)\<close> an exception of the library,
  \<open>Some (Inr (salt, iterations))\<close> the state in which the loop is left.
\<close>

partial_function (option) vanityLoop ::
  "digest \<Rightarrow> Address \<Rightarrow> Address \<Rightarrow> string \<Rightarrow> Hex \<Rightarrow> nat \<Rightarrow> (error + Hex \<times> nat) option" where
  "vanityLoop K deployer impl suffix salt iterations =
     (case predictVanityTokenAddress K deployer impl salt of
        Inl e \<Rightarrow> Some (Inl e)
      | Inr address \<Rightarrow>
          if \<not> endsWith (toLowerCase address) suffix
          then vanityLoop K deployer impl suffix (keccak256 K salt) (increment iterations)
          else Some (Inr (salt, iterations)))"

declare vanityLoop.simps [code]

text \<open>
  The body of \<open>findVanityTokenSalt\<close> for a deployer, an implementation address and a
  suffix; the result \<^verbatim>\<open>{salt, address}\<close> is the pair \<open>(salt, address)\<close>.
\<close>

definition vanitySearch ::
  "digest \<Rightarrow> Address \<Rightarrow> Address \<Rightarrow> string \<Rightarrow> byte list \<Rightarrow> (error + Hex \<times> Address) option" where
  "vanitySearch K deployer impl suffix randomBytes =
     (case vanityLoop K deployer impl suffix (initialSalt K randomBytes) 0 of
        None \<Rightarrow> None
      | Some (Inl e) \<Rightarrow> Some (Inl e)
      | Some (Inr (salt, iterations)) \<Rightarrow>
          (case predictVanityTokenAddress K deployer impl salt of
             Inl e \<Rightarrow> Some (Inl e)
           | Inr address \<Rightarrow> Some (Inr (salt, address))))"

definition findVanityTokenSalt :: "digest \<Rightarrow> byte list \<Rightarrow> (error + Hex \<times> Address) option" where
  "findVanityTokenSalt K randomBytes =
     vanitySearch K FLAP_PORTAL_ADDRESS NON_TAX_TOKEN_IMPL ''8888'' randomBytes"

subsection \<open>Notions used to state the properties of the search\<close>

text \<open>
  The loop test on one salt: the salt is accepted when its predicted address, in lower
  case, ends with the suffix, and rejected when the prediction succeeds and the test fails.
\<close>

definition accepted :: "digest \<Rightarrow> Address \<Rightarrow> Address \<Rightarrow> string \<Rightarrow> Hex \<Rightarrow> bool" where
  "accepted K deployer impl suffix salt =
     (case predictVanityTokenAddress K deployer impl salt of
        Inl e \<Rightarrow> False
      | Inr address \<Rightarrow> endsWith (toLowerCase address) suffix)"

definition rejected :: "digest \<Rightarrow> Address \<Rightarrow> Address \<Rightarrow> string \<Rightarrow> Hex \<Rightarrow> bool" where
  "rejected K deployer impl suffix salt =
     (case predictVanityTokenAddress K deployer impl salt of
        Inl e \<Rightarrow> False
      | Inr address \<Rightarrow> \<not> endsWith (toLowerCase address) suffix)"

text \<open>The hash chain \<open>salt0, keccak256 salt0, keccak256 (keccak256 salt0), ...\<close>\<close>

definition saltChain :: "digest \<Rightarrow> Hex \<Rightarrow> nat \<Rightarrow> Hex" where
  "saltChain K salt0 n = (keccak256 K ^^ n) salt0"

text \<open>
  The loop started at \<open>salt\<close> is left with \<open>r\<close> at element \<open>n\<close> of the chain: the
  elements before are rejected, and element \<open>n\<close> is accepted or makes the library raise.
\<close>

definition loopExit ::
  "digest \<Rightarrow> Address \<Rightarrow> Address \<Rightarrow> string \<Rightarrow> Hex \<Rightarrow> nat \<Rightarrow> nat \<Rightarrow> (error + Hex \<times> nat) \<Rightarrow> bool" where
  "loopExit K deployer impl suffix salt iterations n r =
     ((\<forall>m<n. rejected K deployer impl suffix (saltChain K salt m)) \<and>
      (case r of
         Inl e \<Rightarrow> predictVanityTokenAddress K deployer impl (saltChain K salt n) = Inl e
       | Inr (s, it) \<Rightarrow> s = saltChain K salt n \<and> it = (increment ^^ n) iterations \<and>
                          accepted K deployer impl suffix s))"

text \<open>
  The address formula as the specification words it: the low 20 bytes of the digest of
  \<^verbatim>\<open>0xff\<close>, the deployer, the salt and the digest of the bytecode.
\<close>

definition create2Formula :: "digest \<Rightarrow> byte list \<Rightarrow> byte list \<Rightarrow> byte list \<Rightarrow> byte list" where
  "create2Formula K deployerBytes saltBytes bytecodeBytes =
     drop 12 (digestBytes (K (0xff # deployerBytes @ saltBytes @ digestBytes (K bytecodeBytes))))"

text \<open>
  The initial salt as the specification words it, \<^verbatim>\<open>salt = hash(seed)\<close>: the digest of
  the 32 seed bytes.
\<close>

definition hashOfSeedBytes :: "digest \<Rightarrow> byte list \<Rightarrow> Hex" where
  "hashOfSeedBytes K randomBytes = bytesToHex (digestBytes (K randomBytes))"

text \<open>The two fixed parts of the minimal-proxy bytecode, as bytes.\<close>

definition proxyPrefixBytes :: "byte list" where
  "proxyPrefixBytes =
     [0x3d, 0x60, 0x2d, 0x80, 0x60, 0x0a, 0x3d, 0x39, 0x81, 0xf3,
      0x36, 0x3d, 0x3d, 0x37, 0x3d, 0x3d, 0x3d, 0x36, 0x3d, 0x73]"

definition proxySuffixBytes :: "byte list" where
  "proxySuffixBytes =
     [0x5a, 0xf4, 0x3d, 0x82, 0x80, 0x3e, 0x90, 0x3d, 0x91, 0x60, 0x2b, 0x57, 0xfd, 0x5b, 0xf3]"

text \<open>
  A small digest function on which the search can be run by evaluation: a 16-bit rolling
  sum of the hashed bytes, repeated over the first 30 bytes of the digest, and its last hex
  digit repeated over the last two bytes.
\<close>

definition sampleSum :: "byte list \<Rightarrow> nat" where
  "sampleSum m = foldl (\<lambda>h b. (h * 33 + unat b) mod 65521) 5381 m"

definition pattern32 :: "byte \<Rightarrow> byte \<Rightarrow> byte \<Rightarrow> byte list" where
  "pattern32 hi lo x =
     [hi, lo, hi, lo, hi, lo, hi, lo, hi, lo, hi, lo, hi, lo, hi, lo,
      hi, lo, hi, lo, hi, lo, hi, lo, hi, lo, hi, lo, hi, lo, x, x]"

definition sampleDigestBytes :: "byte list \<Rightarrow> byte list" where
  "sampleDigestBytes m =
     (let s = sampleSum m
      in pattern32 (of_nat (s div 256)) (of_nat (s mod 256)) (of_nat (17 * (s mod 16))))"

lift_definition sampleDigest :: digest is sampleDigestBytes
  by (simp add: sampleDigestBytes_def pattern32_def Let_def)

text \<open>Sample random bytes: 32 bytes of value 8.\<close>

definition sampleSeed :: "byte list" where
  "sampleSeed = pattern32 8 8 8"


section \<open>FlapService: token creation and selling\<close>

text \<open>
  The methods of \<open>FlapService\<close> talk to the chain and to IPFS. The answers of the outside
  world are the fields of a record; each request sent is appended to a trace, and a
  rejected promise or a raised exception is \<open>Inl\<close>. Amounts are \<^verbatim>\<open>bigint\<close> values.
\<close>

datatype abi = FLAP_ABI | ERC20_ABI

record NewTokenV5Params =
  p_name :: string
  p_symbol :: string
  p_meta :: string
  p_dexThresh :: int
  p_salt :: Hex
  p_taxRate :: int
  p_migratorType :: int
  p_quoteToken :: Address
  p_quoteAmt :: int
  p_beneficiary :: Address
  p_permitData :: Hex
  p_extensionID :: Hex
  p_extensionData :: Hex
  p_dexId :: int
  p_lpFeeProfile :: int
  p_taxDuration :: int
  p_antiFarmerDuration :: int
  p_mktBps :: int
  p_deflationBps :: int
  p_dividendBps :: int
  p_lpBps :: int
  p_minimumShareBalance :: int

datatype arg = AddressArg Address | UintArg int | ParamsArg NewTokenV5Params

record request =
  req_address :: Address
  req_abi :: abi
  req_functionName :: string
  req_args :: "arg list"
  req_value :: "int option"

record Log =
  log_topics :: "Hex list"
  log_data :: Hex

record Receipt =
  receipt_logs :: "Log list"

text \<open>
  A decoded event: its name and the \<^verbatim>\<open>token\<close> argument, which the \<^verbatim>\<open>TokenCreated\<close> event of
  the portal's ABI carries (the ABI file is not part of the sources).
\<close>

record DecodedEvent =
  eventName :: string
  args_token :: Address

datatype action =
    UploadFlapMetadata string string string string "string option"
  | ReadContract request
  | WriteContract request
  | WaitForTransactionReceipt Hex

record World =
  keccak :: digest
  randomBytes32 :: "byte list"
  account_address :: Address
  parseEther :: "string \<Rightarrow> error + int"
  uploadFlapMetadata ::
    "string \<Rightarrow> string \<Rightarrow> string \<Rightarrow> string \<Rightarrow> string option \<Rightarrow> string option"
  decodeEventLog :: "Log \<Rightarrow> error + DecodedEvent"
  readContract :: "request \<Rightarrow> error + int"
  writeContract :: "request \<Rightarrow> error + Hex"
  waitForTransactionReceipt :: "Hex \<Rightarrow> error + Receipt"

record CreatedToken =
  tokenAddress :: Address
  txHash :: Hex

type_synonym 'a io = "action list \<Rightarrow> (error + 'a) \<times> action list"

definition returnIO :: "'a \<Rightarrow> 'a io" where
  "returnIO x tr = (Inr x, tr)"

definition throwIO :: "error \<Rightarrow> 'a io" where
  "throwIO e tr = (Inl e, tr)"

definition bindIO :: "'a io \<Rightarrow> ('a \<Rightarrow> 'b io) \<Rightarrow> 'b io" where
  "bindIO m f tr = (case m tr of (Inl e, tr') \<Rightarrow> (Inl e, tr') | (Inr x, tr') \<Rightarrow> f x tr')"

definition readContractIO :: "World \<Rightarrow> request \<Rightarrow> int io" where
  "readContractIO W req tr = (readContract W req, tr @ [ReadContract req])"

definition writeContractIO :: "World \<Rightarrow> request \<Rightarrow> Hex io" where
  "writeContractIO W req tr = (writeContract W req, tr @ [WriteContract req])"

definition waitForTransactionReceiptIO :: "World \<Rightarrow> Hex \<Rightarrow> Receipt io" where
  "waitForTransactionReceiptIO W hash tr =
     (waitForTransactionReceipt W hash, tr @ [WaitForTransactionReceipt hash])"

definition ZERO_ADDRESS :: Address where
  "ZERO_ADDRESS = ''0x0000000000000000000000000000000000000000''"

text \<open>
  The loop over \<^verbatim>\<open>receipt.logs\<close>: a log without a truthy first topic is passed over, a log
  whose decoding raises is passed over by the \<^verbatim>\<open>catch\<close>, and the first log decoded to
  \<^verbatim>\<open>TokenCreated\<close> sets the token address and ends the loop.
\<close>

definition topic0Truthy :: "Log \<Rightarrow> bool" where
  "topic0Truthy log = (case log_topics log of [] \<Rightarrow> False | t # ts \<Rightarrow> t \<noteq> [])"

fun scanLogs :: "(Log \<Rightarrow> error + DecodedEvent) \<Rightarrow> Log list \<Rightarrow> Address \<Rightarrow> Address" where
  "scanLogs decode [] found = found"
| "scanLogs decode (log # rest) found =
     (if topic0Truthy log then
        (case decode log of
           Inl e \<Rightarrow> scanLogs decode rest found
         | Inr decoded \<Rightarrow>
             if eventName decoded = ''TokenCreated'' then args_token decoded
             else scanLogs decode rest found)
      else scanLogs decode rest found)"

definition newTokenV5Params :: "World \<Rightarrow> string \<Rightarrow> string \<Rightarrow> string \<Rightarrow> Hex \<Rightarrow> int \<Rightarrow> NewTokenV5Params" where
  "newTokenV5Params W name symbol metadataCid salt quoteAmount =
     \<lparr> p_name = name, p_symbol = symbol, p_meta = metadataCid, p_dexThresh = 1, p_salt = salt,
       p_taxRate = 0, p_migratorType = 0,
       p_quoteToken = ''0x0000000000000000000000000000000000000000'',
       p_quoteAmt = quoteAmount, p_beneficiary = account_address W, p_permitData = ''0x'',
       p_extensionID = ''0x0000000000000000000000000000000000000000000000000000000000000000'',
       p_extensionData = ''0x'', p_dexId = 0, p_lpFeeProfile = 0, p_taxDuration = 0,
       p_antiFarmerDuration = 0, p_mktBps = 0, p_deflationBps = 0, p_dividendBps = 0,
       p_lpBps = 0, p_minimumShareBalance = 0 \<rparr>"

definition newTokenV5Request :: "NewTokenV5Params \<Rightarrow> int \<Rightarrow> request" where
  "newTokenV5Request params quoteAmount =
     \<lparr> req_address = FLAP_PORTAL_ADDRESS, req_abi = FLAP_ABI, req_functionName = ''newTokenV5'',
       req_args = [ParamsArg params], req_value = Some quoteAmount \<rparr>"

text \<open>
  \<open>createToken\<close>. An absent optional argument is \<open>None\<close>: the initial buy amount then
  takes its default, and \<^verbatim>\<open>description || ...\<close> replaces an absent or empty description.
  \<^verbatim>\<open>!metadataCid\<close> holds for \<^verbatim>\<open>null\<close> and for the empty string. The result is \<open>None\<close> when
  the salt search never ends.
\<close>

definition initialBuyAmountOrDefault :: "string option \<Rightarrow> string" where
  "initialBuyAmountOrDefault initialBuyAmount =
     (case initialBuyAmount of None \<Rightarrow> ''0.0001'' | Some a \<Rightarrow> a)"

definition descriptionOrDefault :: "string \<Rightarrow> string option \<Rightarrow> string" where
  "descriptionOrDefault name description =
     (case description of
        None \<Rightarrow> name @ '' - Inspired by trending topics''
      | Some d \<Rightarrow> if d = [] then name @ '' - Inspired by trending topics'' else d)"

definition createToken ::
  "World \<Rightarrow> string \<Rightarrow> string \<Rightarrow> string \<Rightarrow> string option \<Rightarrow> string option \<Rightarrow> string option \<Rightarrow>
   action list \<Rightarrow> ((error + CreatedToken) \<times> action list) option" where
  "createToken W name symbol imageUrl tweetUrl description initialBuyAmount tr =
     (case parseEther W (initialBuyAmountOrDefault initialBuyAmount) of
        Inl e \<Rightarrow> Some (Inl e, tr)
      | Inr quoteAmount \<Rightarrow>
          (let descr = descriptionOrDefault name description;
               metadataCid = uploadFlapMetadata W imageUrl name symbol descr tweetUrl;
               tr1 = tr @ [UploadFlapMetadata imageUrl name symbol descr tweetUrl]
           in case metadataCid of
                None \<Rightarrow> Some (Inl (Error ''Failed to upload metadata to IPFS''), tr1)
              | Some cid \<Rightarrow>
                  if cid = [] then Some (Inl (Error ''Failed to upload metadata to IPFS''), tr1)
                  else
                    (case findVanityTokenSalt (keccak W) (randomBytes32 W) of
                       None \<Rightarrow> None
                     | Some (Inl e) \<Rightarrow> Some (Inl e, tr1)
                     | Some (Inr (salt, predictedAddress)) \<Rightarrow>
                         Some (bindIO
                           (writeContractIO W
                              (newTokenV5Request (newTokenV5Params W name symbol cid salt quoteAmount)
                                 quoteAmount))
                           (\<lambda>hash. bindIO (waitForTransactionReceiptIO W hash)
                              (\<lambda>receipt.
                                 let found = scanLogs (decodeEventLog W) (receipt_logs receipt)
                                               ZERO_ADDRESS
                                 in if found = ZERO_ADDRESS
                                    then throwIO (Error ''Token address not found in transaction logs'')
                                    else returnIO \<lparr> tokenAddress = found, txHash = hash \<rparr>))
                           tr1))))"

text \<open>A log that the loop decodes to a \<^verbatim>\<open>TokenCreated\<close> event.\<close>

definition decodesToTokenCreated :: "(Log \<Rightarrow> error + DecodedEvent) \<Rightarrow> Log \<Rightarrow> bool" where
  "decodesToTokenCreated decode log =
     (topic0Truthy log \<and>
      (case decode log of Inl e \<Rightarrow> False | Inr decoded \<Rightarrow> eventName decoded = ''TokenCreated''))"

definition approveRequest :: "Address \<Rightarrow> int \<Rightarrow> request" where
  "approveRequest token amount =
     \<lparr> req_address = token, req_abi = ERC20_ABI, req_functionName = ''approve'',
       req_args = [AddressArg FLAP_PORTAL_ADDRESS, UintArg amount], req_value = None \<rparr>"

definition sellRequest :: "Address \<Rightarrow> int \<Rightarrow> request" where
  "sellRequest token amount =
     \<lparr> req_address = FLAP_PORTAL_ADDRESS, req_abi = FLAP_ABI, req_functionName = ''sell'',
       req_args = [AddressArg token, UintArg amount, UintArg 0], req_value = None \<rparr>"

definition balanceOfRequest :: "World \<Rightarrow> Address \<Rightarrow> request" where
  "balanceOfRequest W token =
     \<lparr> req_address = token, req_abi = ERC20_ABI, req_functionName = ''balanceOf'',
       req_args = [AddressArg (account_address W)], req_value = None \<rparr>"

definition sellTokens :: "World \<Rightarrow> Address \<Rightarrow> int \<Rightarrow> Hex io" where
  "sellTokens W token amount =
     bindIO (writeContractIO W (approveRequest token amount)) (\<lambda>approveHash.
     bindIO (waitForTransactionReceiptIO W approveHash) (\<lambda>approved.
     bindIO (writeContractIO W (sellRequest token amount)) (\<lambda>hash.
     bindIO (waitForTransactionReceiptIO W hash) (\<lambda>sold.
     returnIO hash))))"

definition getTokenBalance :: "World \<Rightarrow> Address \<Rightarrow> int io" where
  "getTokenBalance W token = readContractIO W (balanceOfRequest W token)"

definition sellAllTokens :: "World \<Rightarrow> Address \<Rightarrow> unit io" where
  "sellAllTokens W token =
     bindIO (getTokenBalance W token) (\<lambda>balance.
       if balance = 0 then returnIO ()
       else bindIO (sellTokens W token balance) (\<lambda>hash. returnIO ()))"

text \<open>A sample world for running the two methods on concrete inputs.\<close>

definition sampleCreatedLog :: Log where
  "sampleCreatedLog = \<lparr> log_topics = [''0x504e7f36''], log_data = ''0x01'' \<rparr>"

definition sampleOtherLog :: Log where
  "sampleOtherLog = \<lparr> log_topics = [''0xddf252ad''], log_data = ''0x'' \<rparr>"

definition sampleWorld :: "Log list \<Rightarrow> int \<Rightarrow> World" where
  "sampleWorld receiptLogs balance =
     \<lparr> keccak = sampleDigest,
       randomBytes32 = sampleSeed,
       account_address = ''0x00000000000000000000000000000000000000a1'',
       parseEther = (\<lambda>s. Inr 100000000000000),
       uploadFlapMetadata = (\<lambda>imageUrl name symbol descr twitter. Some ''bafkreia''),
       decodeEventLog = (\<lambda>log.
          if log_data log = ''0x01''
          then Inr \<lparr> eventName = ''TokenCreated'',
                     args_token = ''0xB3f8B3f8B3f8B3f8B3f8B3f8B3f8B3f8B3f88888'' \<rparr>
          else Inl (Error ''AbiEventSignatureNotFoundError'')),
       readContract = (\<lambda>req. Inr balance),
       writeContract = (\<lambda>req. if req_functionName req = ''approve'' then Inr ''0xa1''
                                else Inr ''0xb2''),
       waitForTransactionReceipt = (\<lambda>hash. Inr \<lparr> receipt_logs = receiptLogs \<rparr>) \<rparr>"

section \<open>Properties of the hex codec\<close>

lemma hexDigit_table:
  "list_all (\<lambda>n. charCodeToBase16 (hexDigit n) = Some n \<and>
                  toLowerCaseChar (hexDigit n) = hexDigit n) [0..<16]"
  by code_simp

lemma hexDigit_base16: "n < 16 \<Longrightarrow> charCodeToBase16 (hexDigit n) = Some n"
  using hexDigit_table by (simp add: list_all_iff)

lemma hexDigit_lower: "toLowerCaseChar (hexDigit n) = hexDigit n"
proof -
  have "n mod 16 < 16" by simp
  then have "toLowerCaseChar (hexDigit (n mod 16)) = hexDigit (n mod 16)"
    using hexDigit_table by (simp add: list_all_iff)
  then show ?thesis by (simp add: hexDigit_def)
qed

lemma isHexChar_hexDigit: "isHexChar (hexDigit n)"
proof -
  have "charCodeToBase16 (hexDigit (n mod 16)) = Some (n mod 16)"
    by (rule hexDigit_base16) simp
  then show ?thesis by (simp add: isHexChar_def hexDigit_def)
qed

lemma nibble_hexDigit: "n < 16 \<Longrightarrow> nibble (hexDigit n) = n"
  by (simp add: nibble_def hexDigit_base16)

lemma length_hexOfBytes: "length (hexOfBytes bs) = 2 * length bs"
  by (induction bs) (simp_all add: hexOfBytes_def hexes_def)

lemma hexOfBytes_Nil: "hexOfBytes [] = []"
  by (simp add: hexOfBytes_def)

lemma hexOfBytes_Cons:
  "hexOfBytes (b # bs) = hexDigit (unat b div 16) # hexDigit (unat b mod 16) # hexOfBytes bs"
  by (simp add: hexOfBytes_def hexes_def)

lemma list_all_isHexChar_hexOfBytes: "list_all isHexChar (hexOfBytes bs)"
  by (induction bs) (simp_all add: hexOfBytes_Nil hexOfBytes_Cons isHexChar_hexDigit)

lemma toLowerCase_hexOfBytes: "toLowerCase (hexOfBytes bs) = hexOfBytes bs"
  by (induction bs) (simp_all add: hexOfBytes_Nil hexOfBytes_Cons toLowerCase_def hexDigit_lower)

lemma bytesOfHex_hexOfBytes: "bytesOfHex (hexOfBytes bs) = bs"
proof (induction bs)
  case Nil
  show ?case by (simp add: hexOfBytes_Nil)
next
  case (Cons b bs)
  have "unat b div 16 < 16"
    using unsigned_less [of b, where ?'a = nat] by simp
  then show ?case using Cons
    by (simp add: hexOfBytes_Cons nibble_hexDigit)
qed

lemma isHex_bytesToHex: "isHex (bytesToHex bs)"
  by (simp add: isHex_def bytesToHex_def list_all_isHexChar_hexOfBytes)

lemma hexToBytes_bytesToHex: "hexToBytes (bytesToHex bs) = bs"
  by (simp add: hexToBytes_def bytesToHex_def length_hexOfBytes bytesOfHex_hexOfBytes)

lemma toBytes_bytesToHex: "toBytes (bytesToHex bs) = bs"
  by (simp add: toBytes_def isHex_bytesToHex hexToBytes_bytesToHex)

lemma length_digestBytes: "length (digestBytes w) = 32"
  using digestBytes [of w] by simp

lemma drop_hexOfBytes: "drop (2 * n) (hexOfBytes bs) = hexOfBytes (drop n bs)"
proof (induction bs arbitrary: n)
  case Nil
  show ?case by (simp add: hexOfBytes_Nil)
next
  case (Cons b bs)
  show ?case
  proof (cases n)
    case 0
    then show ?thesis by simp
  next
    case (Suc k)
    then show ?thesis using Cons [of k] by (simp add: hexOfBytes_Cons)
  qed
qed

lemma toBytes_keccak256: "toBytes (keccak256 K v) = digestBytes (K (toBytes v))"
  by (simp add: keccak256_def keccak256_bytes_def toBytes_bytesToHex)

section \<open>Properties of the address prediction\<close>

lemma toLowerCaseChar_toUpperCaseChar:
  "toLowerCaseChar (toUpperCaseChar c) = toLowerCaseChar c"
  by (auto simp: toLowerCaseChar_def toUpperCaseChar_def Let_def)

lemma toLowerCaseChar_idem: "toLowerCaseChar (toLowerCaseChar c) = toLowerCaseChar c"
  by (auto simp: toLowerCaseChar_def Let_def)

lemma map_enumerate_snd:
  "(\<And>j c. h (j, c) = f c) \<Longrightarrow> map h (enumerate n xs) = map f xs"
  by (induction xs arbitrary: n) simp_all

lemma toLowerCase_checksumAddress:
  "toLowerCase (checksumAddress K a) = ''0x'' @ toLowerCase (drop 2 a)"
proof -
  have "map (toLowerCaseChar \<circ> (\<lambda>(j, c). if P j then toUpperCaseChar c else c)) (enumerate 0 xs)
        = map toLowerCaseChar xs" for P xs
    by (rule map_enumerate_snd) (simp add: toLowerCaseChar_toUpperCaseChar)
  then show ?thesis
    by (simp add: checksumAddress_def toLowerCase_def Let_def toLowerCaseChar_idem
        toLowerCaseChar_def [of "CHR ''0''"] toLowerCaseChar_def [of "CHR ''x''"])
qed

lemma toBytes_0xff: "toBytes ''0xff'' = [0xff]"
  by (simp add: toBytes_def isHex_def isHexChar_def charCodeToBase16_def hexToBytes_def nibble_def)

lemma isAddress_bytesToHex: "length bs = 20 \<Longrightarrow> isAddress (bytesToHex bs)"
  using isHex_bytesToHex [of bs] by (simp add: isAddress_def bytesToHex_def length_hexOfBytes)

lemma getContractAddress_Inr:
  assumes "isAddress from" "length salt \<le> 32"
  shows "getContractAddress K from salt bytecode =
         Inr (checksumAddress K (bytesToHex (drop 12 (digestBytes
           (K (0xff # toBytes (checksumAddress K from) @ replicate (32 - length salt) 0 @ salt @
               keccak256_bytes K bytecode))))))"
proof -
  have "drop 24 (hexOfBytes bs) = hexOfBytes (drop 12 bs)" for bs
    using drop_hexOfBytes [of 12 bs] by simp
  moreover have "isAddress (bytesToHex (drop 12 (digestBytes w)))" for w
    by (rule isAddress_bytesToHex) (simp add: length_digestBytes)
  ultimately show ?thesis using assms
    by (simp add: getContractAddress_def getAddress_def pad32_def Let_def toBytes_0xff bytesToHex_def)
qed

lemma charCodeToBase16_lower: "charCodeToBase16 (toLowerCaseChar c) = charCodeToBase16 c"
  by (auto simp: toLowerCaseChar_def charCodeToBase16_def Let_def)

lemma charCodeToBase16_upper: "charCodeToBase16 (toUpperCaseChar c) = charCodeToBase16 c"
  by (auto simp: toUpperCaseChar_def charCodeToBase16_def Let_def)

lemma nibble_case:
  "nibble (toLowerCaseChar c) = nibble c" "nibble (toUpperCaseChar c) = nibble c"
  by (simp_all add: nibble_def charCodeToBase16_lower charCodeToBase16_upper)

lemma isHexChar_case:
  "isHexChar (toLowerCaseChar c) = isHexChar c" "isHexChar (toUpperCaseChar c) = isHexChar c"
  by (simp_all add: isHexChar_def charCodeToBase16_lower charCodeToBase16_upper)

lemma bytesOfHex_cong: "map nibble xs = map nibble ys \<Longrightarrow> bytesOfHex xs = bytesOfHex ys"
proof (induction xs arbitrary: ys rule: bytesOfHex.induct)
  case (1 a b cs)
  then obtain a' b' cs' where "ys = a' # b' # cs'" by (cases ys; cases "tl ys") auto
  with 1 show ?case by auto
qed (auto simp: Cons_eq_map_conv)


lemma map_drop2_checksumAddress:
  assumes "\<And>c. f (toLowerCaseChar c) = f c" "\<And>c. f (toUpperCaseChar c) = f c"
  shows "map f (drop 2 (checksumAddress K a)) = map f (drop 2 a)"
proof -
  have "map (f \<circ> (\<lambda>(j, c). if P j then toUpperCaseChar c else c)) (enumerate 0 xs) = map f xs"
    for P xs
    by (rule map_enumerate_snd) (simp add: assms)
  then show ?thesis
    by (simp add: checksumAddress_def Let_def toLowerCase_def assms)
qed

lemma length_checksumAddress: "length (checksumAddress K a) = 2 + length (drop 2 a)"
  by (simp add: checksumAddress_def Let_def toLowerCase_def)

lemma take2_checksumAddress: "take 2 (checksumAddress K a) = ''0x''"
  by (simp add: checksumAddress_def Let_def)

lemma isHexChar_list: "list_all isHexChar xs \<longleftrightarrow> None \<notin> set (map charCodeToBase16 xs)"
  by (induction xs) (auto simp: isHexChar_def)

lemma isHex_checksumAddress: "isHex a \<Longrightarrow> isHex (checksumAddress K a)"
  using map_drop2_checksumAddress [of charCodeToBase16 K a]
  by (simp add: isHex_def take2_checksumAddress isHexChar_list
      charCodeToBase16_lower charCodeToBase16_upper)

lemma isAddress_checksumAddress: "isAddress a \<Longrightarrow> isAddress (checksumAddress K a)"
  by (auto simp: isAddress_def isHex_checksumAddress length_checksumAddress)

lemma toBytes_checksumAddress:
  assumes "isAddress a"
  shows "toBytes (checksumAddress K a) = hexToBytes a"
proof -
  have "bytesOfHex (drop 2 (checksumAddress K a)) = bytesOfHex (drop 2 a)"
    by (rule bytesOfHex_cong) (simp add: map_drop2_checksumAddress nibble_case)
  moreover have "length (drop 2 (checksumAddress K a)) = 40" "length (drop 2 a) = 40"
    using assms by (simp_all add: length_checksumAddress isAddress_def)
  ultimately show ?thesis
    using assms isHex_checksumAddress [of a K]
    by (simp add: toBytes_def hexToBytes_def isAddress_def)
qed

lemma predictVanityTokenAddress_formula:
  assumes "isAddress deployer" "length (toBytes salt) \<le> 32"
  shows "predictVanityTokenAddress K deployer impl salt =
         Inr (checksumAddress K (bytesToHex (create2Formula K (hexToBytes deployer)
           (replicate (32 - length (toBytes salt)) 0 @ toBytes salt)
           (toBytes (proxyBytecode impl)))))"
  using assms
  by (simp add: predictVanityTokenAddress_def getContractAddress_Inr create2Formula_def
      toBytes_checksumAddress keccak256_bytes_def)

lemma toLowerCase_bytesToHex: "toLowerCase (bytesToHex bs) = bytesToHex bs"
  using toLowerCase_hexOfBytes [of bs]
  by (simp add: bytesToHex_def toLowerCase_def toLowerCaseChar_def [of "CHR ''0''"]
      toLowerCaseChar_def [of "CHR ''x''"])

lemma toLowerCase_checksum_bytesToHex:
  "toLowerCase (checksumAddress K (bytesToHex bs)) = bytesToHex bs"
  using toLowerCase_hexOfBytes [of bs]
  by (simp add: toLowerCase_checksumAddress bytesToHex_def)

section \<open>Properties of the search loop\<close>

lemma saltChain_0: "saltChain K salt 0 = salt"
  by (simp add: saltChain_def)

lemma saltChain_Suc: "saltChain K salt (Suc n) = saltChain K (keccak256 K salt) n"
  by (simp add: saltChain_def funpow_swap1)

lemma loopExit_here_error:
  "predictVanityTokenAddress K deployer impl salt = Inl e \<Longrightarrow>
   loopExit K deployer impl suffix salt iterations 0 (Inl e)"
  by (simp add: loopExit_def saltChain_0)

lemma loopExit_here_accept:
  "accepted K deployer impl suffix salt \<Longrightarrow>
   loopExit K deployer impl suffix salt iterations 0 (Inr (salt, iterations))"
  by (simp add: loopExit_def saltChain_0)

lemma loopExit_step:
  assumes rej: "rejected K deployer impl suffix salt"
    and later: "loopExit K deployer impl suffix (keccak256 K salt) (increment iterations) n r"
  shows "loopExit K deployer impl suffix salt iterations (Suc n) r"
proof -
  have "rejected K deployer impl suffix (saltChain K salt m)" if "m < Suc n" for m
  proof (cases m)
    case 0
    then show ?thesis using rej by (simp add: saltChain_0)
  next
    case (Suc k)
    then show ?thesis using later that by (simp add: loopExit_def saltChain_Suc)
  qed
  moreover have "(increment ^^ n) (increment iterations) = (increment ^^ Suc n) iterations"
    by (simp add: funpow_swap1)
  ultimately show ?thesis using later
    by (simp add: loopExit_def saltChain_Suc del: funpow.simps split: sum.splits prod.splits)
qed

text \<open>Whatever the loop returns, it returns at some element of the chain.\<close>

lemma vanityLoop_Some_exit:
  assumes "vanityLoop K deployer impl suffix salt iterations = Some r"
  shows "\<exists>n. loopExit K deployer impl suffix salt iterations n r"
proof (rule vanityLoop.raw_induct
    [where P = "\<lambda>K deployer impl suffix salt iterations r.
                  \<exists>n. loopExit K deployer impl suffix salt iterations n r", OF _ assms])
  fix loop K deployer impl suffix salt iterations r
  assume IH: "\<And>K deployer impl suffix salt iterations r.
      loop K deployer impl suffix salt iterations = Some r \<Longrightarrow>
      \<exists>n. loopExit K deployer impl suffix salt iterations n r"
  assume body: "(case predictVanityTokenAddress K deployer impl salt of
        Inl e \<Rightarrow> Some (Inl e)
      | Inr address \<Rightarrow>
          if \<not> endsWith (toLowerCase address) suffix
          then loop K deployer impl suffix (keccak256 K salt) (increment iterations)
          else Some (Inr (salt, iterations))) = Some r"
  show "\<exists>n. loopExit K deployer impl suffix salt iterations n r"
  proof (cases "predictVanityTokenAddress K deployer impl salt")
    case (Inl e)
    then have "r = Inl e" using body by simp
    then show ?thesis using loopExit_here_error [OF Inl] by blast
  next
    case (Inr address)
    show ?thesis
    proof (cases "endsWith (toLowerCase address) suffix")
      case True
      then have "r = Inr (salt, iterations)" using body Inr by simp
      moreover have "accepted K deployer impl suffix salt"
        using Inr True by (simp add: accepted_def)
      ultimately show ?thesis using loopExit_here_accept by blast
    next
      case False
      then have "loop K deployer impl suffix (keccak256 K salt) (increment iterations) = Some r"
        using body Inr by simp
      then obtain n where
        "loopExit K deployer impl suffix (keccak256 K salt) (increment iterations) n r"
        using IH by blast
      moreover have "rejected K deployer impl suffix salt"
        using Inr False by (simp add: rejected_def)
      ultimately show ?thesis using loopExit_step by blast
    qed
  qed
qed

text \<open>Conversely, an exit at element \<open>n\<close> is what the loop returns.\<close>

lemma vanityLoop_exit_Some:
  "loopExit K deployer impl suffix salt iterations n r \<Longrightarrow>
   vanityLoop K deployer impl suffix salt iterations = Some r"
proof (induction n arbitrary: salt iterations)
  case 0
  then show ?case
    by (subst vanityLoop.simps)
       (auto simp: loopExit_def saltChain_0 accepted_def split: sum.splits prod.splits)
next
  case (Suc n)
  have rej: "rejected K deployer impl suffix salt"
    using Suc.prems by (auto simp: loopExit_def saltChain_0 dest: spec [of _ 0])
  have "loopExit K deployer impl suffix (keccak256 K salt) (increment iterations) n r"
    using Suc.prems
    by (auto simp: loopExit_def saltChain_Suc funpow_swap1 split: sum.splits prod.splits)
  then have "vanityLoop K deployer impl suffix (keccak256 K salt) (increment iterations) = Some r"
    by (rule Suc.IH)
  then show ?case using rej
    by (subst vanityLoop.simps) (auto simp: rejected_def split: sum.splits)
qed

lemma rejected_not_exit:
  "rejected K deployer impl suffix (saltChain K salt n) \<Longrightarrow>
   \<not> loopExit K deployer impl suffix salt iterations n r"
  by (auto simp: loopExit_def rejected_def accepted_def split: sum.splits prod.splits)

text \<open>The loop never ends exactly when every element of the chain is rejected.\<close>

lemma vanityLoop_None_iff:
  "vanityLoop K deployer impl suffix salt iterations = None \<longleftrightarrow>
   (\<forall>n. rejected K deployer impl suffix (saltChain K salt n))"
proof
  assume none: "vanityLoop K deployer impl suffix salt iterations = None"
  show "\<forall>n. rejected K deployer impl suffix (saltChain K salt n)"
  proof (rule ccontr)
    assume "\<not> (\<forall>n. rejected K deployer impl suffix (saltChain K salt n))"
    then obtain n where n: "\<not> rejected K deployer impl suffix (saltChain K salt n)"
      "\<forall>m<n. rejected K deployer impl suffix (saltChain K salt m)"
      using exists_least_iff [of "\<lambda>n. \<not> rejected K deployer impl suffix (saltChain K salt n)"]
      by auto
    have "\<exists>r. loopExit K deployer impl suffix salt iterations n r"
    proof (cases "predictVanityTokenAddress K deployer impl (saltChain K salt n)")
      case (Inl e)
      then have "loopExit K deployer impl suffix salt iterations n (Inl e)"
        using n by (simp add: loopExit_def)
      then show ?thesis ..
    next
      case (Inr address)
      then have "loopExit K deployer impl suffix salt iterations n
                   (Inr (saltChain K salt n, (increment ^^ n) iterations))"
        using n by (simp add: loopExit_def rejected_def accepted_def)
      then show ?thesis ..
    qed
    then show False using vanityLoop_exit_Some none by fastforce
  qed
next
  assume all: "\<forall>n. rejected K deployer impl suffix (saltChain K salt n)"
  show "vanityLoop K deployer impl suffix salt iterations = None"
  proof (cases "vanityLoop K deployer impl suffix salt iterations")
    case None
    then show ?thesis .
  next
    case (Some r)
    then obtain n where "loopExit K deployer impl suffix salt iterations n r"
      using vanityLoop_Some_exit by blast
    then show ?thesis using all rejected_not_exit by blast
  qed
qed

lemma vanityLoop_rejected:
  "rejected K deployer impl suffix salt \<Longrightarrow>
   vanityLoop K deployer impl suffix salt iterations =
   vanityLoop K deployer impl suffix (keccak256 K salt) (increment iterations)"
  by (subst vanityLoop.simps) (simp add: rejected_def split: sum.splits)

lemma vanityLoop_accepted:
  "accepted K deployer impl suffix salt \<Longrightarrow>
   vanityLoop K deployer impl suffix salt iterations = Some (Inr (salt, iterations))"
  by (subst vanityLoop.simps) (simp add: accepted_def split: sum.splits)

section \<open>The predicted address as bytes\<close>

lemma length_bytesOfHex: "length (bytesOfHex xs) = length xs div 2"
  by (induction xs rule: bytesOfHex.induct) simp_all

lemma length_hexToBytes_address: "isAddress a \<Longrightarrow> length (hexToBytes a) = 20"
  by (simp add: isAddress_def hexToBytes_def length_bytesOfHex)

lemma getContractAddress_Inr_iff:
  "(\<exists>a. getContractAddress K from salt bytecode = Inr a) \<longleftrightarrow> isAddress from \<and> length salt \<le> 32"
proof
  assume "\<exists>a. getContractAddress K from salt bytecode = Inr a"
  then show "isAddress from \<and> length salt \<le> 32"
    by (auto simp: getContractAddress_def getAddress_def pad32_def split: if_splits sum.splits)
next
  assume "isAddress from \<and> length salt \<le> 32"
  then show "\<exists>a. getContractAddress K from salt bytecode = Inr a"
    by (simp add: getContractAddress_Inr)
qed

lemma predictVanityTokenAddress_Inr:
  assumes "predictVanityTokenAddress K deployer impl salt = Inr a"
  shows "isAddress deployer" "length (toBytes salt) \<le> 32"
    "a = checksumAddress K (bytesToHex (create2Formula K (hexToBytes deployer)
           (replicate (32 - length (toBytes salt)) 0 @ toBytes salt)
           (toBytes (proxyBytecode impl))))"
proof -
  have "\<exists>a. getContractAddress K deployer (toBytes salt) (proxyBytecode impl) = Inr a"
    using assms by (auto simp: predictVanityTokenAddress_def)
  then show d: "isAddress deployer" and s: "length (toBytes salt) \<le> 32"
    by (simp_all add: getContractAddress_Inr_iff)
  show "a = checksumAddress K (bytesToHex (create2Formula K (hexToBytes deployer)
           (replicate (32 - length (toBytes salt)) 0 @ toBytes salt)
           (toBytes (proxyBytecode impl))))"
    using assms predictVanityTokenAddress_formula [OF d s, of K impl] by simp
qed

lemma length_create2Formula: "length (create2Formula K d s b) = 20"
  by (simp add: create2Formula_def length_digestBytes)

lemma toBytes_checksum_bytesToHex:
  "length bs = 20 \<Longrightarrow> toBytes (checksumAddress K (bytesToHex bs)) = bs"
  by (simp add: toBytes_checksumAddress isAddress_bytesToHex hexToBytes_bytesToHex)

section \<open>Properties of the search\<close>

lemma vanitySearch_Inr:
  assumes "vanitySearch K deployer impl suffix randomBytes = Some (Inr (salt, address))"
  shows "\<exists>n iterations.
           vanityLoop K deployer impl suffix (initialSalt K randomBytes) 0 =
             Some (Inr (salt, iterations)) \<and>
           loopExit K deployer impl suffix (initialSalt K randomBytes) 0 n (Inr (salt, iterations)) \<and>
           predictVanityTokenAddress K deployer impl salt = Inr address"
proof -
  obtain iterations where
    loop: "vanityLoop K deployer impl suffix (initialSalt K randomBytes) 0 =
             Some (Inr (salt, iterations))"
    and address: "predictVanityTokenAddress K deployer impl salt = Inr address"
    using assms
    by (auto simp: vanitySearch_def split: option.splits sum.splits prod.splits)
  from vanityLoop_Some_exit [OF loop] address loop show ?thesis by blast
qed

lemma endsWith_Nil: "endsWith s []"
  by (simp add: endsWith_def)

lemma length_toBytes_initialSalt: "length (toBytes (initialSalt K randomBytes)) = 32"
  by (simp add: initialSalt_def toBytes_keccak256 length_digestBytes)

lemma rejected_not_accepted:
  "rejected K deployer impl suffix salt \<Longrightarrow> \<not> accepted K deployer impl suffix salt"
  by (simp add: rejected_def accepted_def split: sum.splits)

lemma vanitySearch_result:
  assumes run: "vanitySearch K deployer impl suffix randomBytes = Some (Inr (salt, address))"
  shows "predictVanityTokenAddress K deployer impl salt = Inr address \<and>
      endsWith (toLowerCase address) suffix \<and>
      toLowerCase address =
        bytesToHex (create2Formula K (hexToBytes deployer)
          (replicate (32 - length (toBytes salt)) 0 @ toBytes salt)
          (toBytes (proxyBytecode impl)))"
proof -
  obtain n iterations where
    exit: "loopExit K deployer impl suffix (initialSalt K randomBytes) 0 n (Inr (salt, iterations))"
    and address: "predictVanityTokenAddress K deployer impl salt = Inr address"
    using vanitySearch_Inr [OF run] by blast
  have "accepted K deployer impl suffix salt"
    using exit by (auto simp: loopExit_def)
  then have "endsWith (toLowerCase address) suffix"
    using address by (simp add: accepted_def)
  moreover have "toLowerCase address =
      bytesToHex (create2Formula K (hexToBytes deployer)
        (replicate (32 - length (toBytes salt)) 0 @ toBytes salt)
        (toBytes (proxyBytecode impl)))"
    using predictVanityTokenAddress_Inr(3) [OF address]
    by (simp add: toLowerCase_checksum_bytesToHex)
  ultimately show ?thesis using address by simp
qed

lemma vanitySearch_empty_suffix:
  assumes "isAddress deployer"
  shows "vanityLoop K deployer impl [] (initialSalt K randomBytes) 0 =
           Some (Inr (initialSalt K randomBytes, 0)) \<and>
         (\<exists>address. predictVanityTokenAddress K deployer impl (initialSalt K randomBytes) =
                       Inr address \<and>
                     vanitySearch K deployer impl [] randomBytes =
                       Some (Inr (initialSalt K randomBytes, address)))"
proof -
  obtain address where
    address: "predictVanityTokenAddress K deployer impl (initialSalt K randomBytes) = Inr address"
    using predictVanityTokenAddress_formula [OF assms, of "initialSalt K randomBytes" K impl]
    by (simp add: length_toBytes_initialSalt)
  then have "accepted K deployer impl [] (initialSalt K randomBytes)"
    by (simp add: accepted_def endsWith_Nil)
  then have loop: "vanityLoop K deployer impl [] (initialSalt K randomBytes) 0 =
           Some (Inr (initialSalt K randomBytes, 0))"
    by (rule vanityLoop_accepted)
  then have "vanitySearch K deployer impl [] randomBytes =
      Some (Inr (initialSalt K randomBytes, address))"
    using address by (simp add: vanitySearch_def)
  then show ?thesis using loop address by blast
qed

lemma bytesToHex_inject: "bytesToHex as = bytesToHex bs \<Longrightarrow> as = bs"
  by (metis toBytes_bytesToHex)

lemma length_stringToBytes_seedOf:
  "length (stringToBytes (seedOf randomBytes)) = 2 + 2 * length randomBytes"
  by (simp add: stringToBytes_def seedOf_def length_hexOfBytes)

lemma initialSalt_message:
  "initialSalt K randomBytes = bytesToHex (digestBytes (K (stringToBytes (seedOf randomBytes))))"
  by (simp add: initialSalt_def keccak256_def keccak256_bytes_def toHex_def toBytes_bytesToHex)

section \<open>The constants and the bytecode\<close>

lemma isAddress_FLAP_PORTAL_ADDRESS: "isAddress FLAP_PORTAL_ADDRESS"
  by (simp add: isAddress_def isHex_def isHexChar_def charCodeToBase16_def FLAP_PORTAL_ADDRESS_def)

lemma hexToBytes_FLAP_PORTAL_ADDRESS:
  "hexToBytes FLAP_PORTAL_ADDRESS =
   [0xe2, 0xce, 0x6a, 0xb8, 0x08, 0x74, 0xfa, 0x9f, 0xa2, 0xaa,
    0xe6, 0x5d, 0x27, 0x7d, 0xd6, 0xb8, 0xe6, 0x5c, 0x9d, 0xe0]"
  by (simp add: hexToBytes_def nibble_def charCodeToBase16_def FLAP_PORTAL_ADDRESS_def)

lemma hexToBytes_NON_TAX_TOKEN_IMPL:
  "hexToBytes NON_TAX_TOKEN_IMPL =
   [0x8b, 0x43, 0x29, 0x94, 0x7e, 0x34, 0xb6, 0xd5, 0x6d, 0x71,
    0xa3, 0x38, 0x5c, 0xac, 0x12, 0x2b, 0xad, 0xe7, 0xd7, 0x8d]"
  by (simp add: hexToBytes_def nibble_def charCodeToBase16_def NON_TAX_TOKEN_IMPL_def)

lemma proxyBytecode_NON_TAX_TOKEN_IMPL:
  "proxyBytecode NON_TAX_TOKEN_IMPL =
   ''0x3d602d80600a3d3981f3363d3d373d3d3d363d738b4329947e34b6d56d71a3385cac122bade7d78d5af43d82803e903d91602b57fd5bf3''"
  by (simp add: proxyBytecode_def NON_TAX_TOKEN_IMPL_def slice2_def toLowerCase_def toLowerCaseChar_def
      char_of_def bit_Suc_0_iff)

lemma bytesOfHex_append:
  "even (length xs) \<Longrightarrow> bytesOfHex (xs @ ys) = bytesOfHex xs @ bytesOfHex ys"
  by (induction xs rule: bytesOfHex.induct) simp_all

lemma bytesOfHex_toLowerCase: "bytesOfHex (toLowerCase xs) = bytesOfHex xs"
  by (rule bytesOfHex_cong) (simp add: toLowerCase_def nibble_case)

lemma list_all_isHexChar_toLowerCase: "list_all isHexChar (toLowerCase xs) = list_all isHexChar xs"
  by (induction xs) (simp_all add: toLowerCase_def isHexChar_case)

lemma proxyPrefix_digits:
  "list_all isHexChar ''3d602d80600a3d3981f3363d3d373d3d3d363d73''"
  "bytesOfHex ''3d602d80600a3d3981f3363d3d373d3d3d363d73'' = proxyPrefixBytes"
  by (simp_all add: isHexChar_def nibble_def charCodeToBase16_def proxyPrefixBytes_def)

lemma proxySuffix_digits:
  "list_all isHexChar ''5af43d82803e903d91602b57fd5bf3''"
  "bytesOfHex ''5af43d82803e903d91602b57fd5bf3'' = proxySuffixBytes"
  by (simp_all add: isHexChar_def nibble_def charCodeToBase16_def proxySuffixBytes_def)

lemma toBytes_proxyBytecode:
  assumes "isAddress impl"
  shows "toBytes (proxyBytecode impl) = proxyPrefixBytes @ hexToBytes impl @ proxySuffixBytes"
proof -
  let ?p = "''3d602d80600a3d3981f3363d3d373d3d3d363d73''"
  let ?s = "''5af43d82803e903d91602b57fd5bf3''"
  let ?i = "toLowerCase (drop 2 impl)"
  have len: "length ?i = 40" and hex: "list_all isHexChar ?i"
    using assms by (simp_all add: isAddress_def isHex_def toLowerCase_def list_all_isHexChar_toLowerCase [unfolded toLowerCase_def])
  have code: "proxyBytecode impl = ''0x'' @ ?p @ ?i @ ?s"
    by (simp add: proxyBytecode_def slice2_def)
  have "isHex (proxyBytecode impl)"
    using hex proxyPrefix_digits(1) proxySuffix_digits(1) by (simp add: code isHex_def)
  moreover have "hexToBytes (proxyBytecode impl) = bytesOfHex (?p @ ?i @ ?s)"
    using len by (simp add: code hexToBytes_def)
  moreover have "bytesOfHex (?p @ ?i @ ?s) = bytesOfHex ?p @ bytesOfHex ?i @ bytesOfHex ?s"
    using len by (simp add: bytesOfHex_append)
  moreover have "bytesOfHex ?i = hexToBytes impl"
    using assms by (simp add: bytesOfHex_toLowerCase hexToBytes_def isAddress_def)
  ultimately show ?thesis
    using proxyPrefix_digits(2) proxySuffix_digits(2) by (simp add: toBytes_def)
qed

lemma isAddress_NON_TAX_TOKEN_IMPL: "isAddress NON_TAX_TOKEN_IMPL"
  by (simp add: isAddress_def isHex_def isHexChar_def charCodeToBase16_def NON_TAX_TOKEN_IMPL_def)

section \<open>A run of the search on sample inputs\<close>

lemma sample_seed:
  "stringToBytes (seedOf sampleSeed) =
   [48,120,48,56,48,56,48,56,48,56,48,56,48,56,48,56,48,56,48,56,48,56,48,56,48,56,48,56,48,56,48,56,48,56,
    48,56,48,56,48,56,48,56,48,56,48,56,48,56,48,56,48,56,48,56,48,56,48,56,48,56,48,56,48,56,48,56]"
  by (simp add: seedOf_def hexOfBytes_def hexes_def hexDigit_def sampleSeed_def pattern32_def
      stringToBytes_def)

lemma sample_initialSalt:
  "initialSalt sampleDigest sampleSeed = bytesToHex (pattern32 0xbc 0x29 0x99)"
  by (simp add: initialSalt_def keccak256_def keccak256_bytes_def toHex_def toBytes_bytesToHex
      sample_seed sampleDigest.rep_eq sampleDigestBytes_def sampleSum_def Let_def)

lemma sample_bytecodeHash:
  "keccak256_bytes sampleDigest (proxyBytecode NON_TAX_TOKEN_IMPL) = pattern32 0xe3 0xe2 0x22"
  by (simp add: keccak256_bytes_def toBytes_proxyBytecode isAddress_NON_TAX_TOKEN_IMPL hexToBytes_NON_TAX_TOKEN_IMPL
      proxyPrefixBytes_def proxySuffixBytes_def sampleDigest.rep_eq sampleDigestBytes_def sampleSum_def Let_def)

lemma sample_predict:
  "predictVanityTokenAddress sampleDigest FLAP_PORTAL_ADDRESS NON_TAX_TOKEN_IMPL
     (bytesToHex (pattern32 hi lo x)) =
   Inr (checksumAddress sampleDigest (bytesToHex (drop 12 (sampleDigestBytes
     (0xff # hexToBytes FLAP_PORTAL_ADDRESS @ pattern32 hi lo x @ pattern32 0xe3 0xe2 0x22)))))"
proof -
  have "length (pattern32 hi lo x) = 32" by (simp add: pattern32_def)
  then show ?thesis
    using sample_bytecodeHash
    by (simp add: predictVanityTokenAddress_formula isAddress_FLAP_PORTAL_ADDRESS toBytes_bytesToHex
        create2Formula_def sampleDigest.rep_eq keccak256_bytes_def)
qed

lemma sample_keccak256:
  "keccak256 sampleDigest (bytesToHex bs) = bytesToHex (sampleDigestBytes bs)"
  by (simp add: keccak256_def keccak256_bytes_def toBytes_bytesToHex sampleDigest.rep_eq)

lemma sample_chain:
  "sampleDigestBytes (pattern32 0xbc 0x29 0x99) = pattern32 0xe8 0xf1 0x11"
  "sampleDigestBytes (pattern32 0xe8 0xf1 0x11) = pattern32 0x3c 0xc0 0x00"
  by (simp_all add: pattern32_def sampleDigestBytes_def sampleSum_def Let_def)

lemma sample_create2:
  "sampleDigestBytes (0xff # hexToBytes FLAP_PORTAL_ADDRESS @ pattern32 0xbc 0x29 0x99 @
     pattern32 0xe3 0xe2 0x22) = pattern32 0xcf 0x6f 0xff"
  "sampleDigestBytes (0xff # hexToBytes FLAP_PORTAL_ADDRESS @ pattern32 0xe8 0xf1 0x11 @
     pattern32 0xe3 0xe2 0x22) = pattern32 0xb8 0xf0 0x00"
  "sampleDigestBytes (0xff # hexToBytes FLAP_PORTAL_ADDRESS @ pattern32 0x3c 0xc0 0x00 @
     pattern32 0xe3 0xe2 0x22) = pattern32 0xb3 0xf8 0x88"
  by (simp_all add: hexToBytes_FLAP_PORTAL_ADDRESS pattern32_def sampleDigestBytes_def
      sampleSum_def Let_def)

lemma sample_lowercase_addresses:
  "bytesToHex (drop 12 (pattern32 0xcf 0x6f 0xff)) = ''0xcf6fcf6fcf6fcf6fcf6fcf6fcf6fcf6fcf6fffff''"
  "bytesToHex (drop 12 (pattern32 0xb8 0xf0 0x00)) = ''0xb8f0b8f0b8f0b8f0b8f0b8f0b8f0b8f0b8f00000''"
  "bytesToHex (drop 12 (pattern32 0xb3 0xf8 0x88)) = ''0xb3f8b3f8b3f8b3f8b3f8b3f8b3f8b3f8b3f88888''"
  by (simp_all add: bytesToHex_def hexOfBytes_def hexes_def hexDigit_def pattern32_def)

lemma sample_test:
  "accepted sampleDigest FLAP_PORTAL_ADDRESS NON_TAX_TOKEN_IMPL suffix
     (bytesToHex (pattern32 hi lo x)) =
   endsWith (bytesToHex (drop 12 (sampleDigestBytes
     (0xff # hexToBytes FLAP_PORTAL_ADDRESS @ pattern32 hi lo x @ pattern32 0xe3 0xe2 0x22)))) suffix"
  "rejected sampleDigest FLAP_PORTAL_ADDRESS NON_TAX_TOKEN_IMPL suffix
     (bytesToHex (pattern32 hi lo x)) =
   (\<not> endsWith (bytesToHex (drop 12 (sampleDigestBytes
     (0xff # hexToBytes FLAP_PORTAL_ADDRESS @ pattern32 hi lo x @ pattern32 0xe3 0xe2 0x22)))) suffix)"
  by (simp_all add: accepted_def rejected_def sample_predict toLowerCase_checksum_bytesToHex)

lemma sample_rejected_0:
  "rejected sampleDigest FLAP_PORTAL_ADDRESS NON_TAX_TOKEN_IMPL ''8888''
     (bytesToHex (pattern32 0xbc 0x29 0x99))"
  by (simp add: sample_test sample_create2 sample_lowercase_addresses endsWith_def)

lemma sample_rejected_1:
  "rejected sampleDigest FLAP_PORTAL_ADDRESS NON_TAX_TOKEN_IMPL ''8888''
     (bytesToHex (pattern32 0xe8 0xf1 0x11))"
  by (simp add: sample_test sample_create2 sample_lowercase_addresses endsWith_def)

lemma sample_accepted_2:
  "accepted sampleDigest FLAP_PORTAL_ADDRESS NON_TAX_TOKEN_IMPL ''8888''
     (bytesToHex (pattern32 0x3c 0xc0 0x00))"
  by (simp add: sample_test sample_create2 sample_lowercase_addresses endsWith_def)

lemma sample_checksum:
  "checksumAddress sampleDigest ''0xb3f8b3f8b3f8b3f8b3f8b3f8b3f8b3f8b3f88888'' =
   ''0xB3f8B3f8B3f8B3f8B3f8B3f8B3f8B3f8B3f88888''"
proof -
  have lower: "toLowerCase (drop 2 ''0xb3f8b3f8b3f8b3f8b3f8b3f8b3f8b3f8b3f88888'') =
      ''b3f8b3f8b3f8b3f8b3f8b3f8b3f8b3f8b3f88888''"
    by (simp add: toLowerCase_def toLowerCaseChar_def)
  have hash: "sampleDigestBytes (stringToBytes ''b3f8b3f8b3f8b3f8b3f8b3f8b3f8b3f8b3f88888'') =
      pattern32 0x9c 0x71 0x11"
    by (simp add: stringToBytes_def sampleDigestBytes_def sampleSum_def Let_def)
  have "checksumAddress sampleDigest ''0xb3f8b3f8b3f8b3f8b3f8b3f8b3f8b3f8b3f88888'' =
      ''0x'' @ map (\<lambda>(j, c). if j < 40 \<and> 8 \<le> digestNibble (pattern32 0x9c 0x71 0x11) j
                               then toUpperCaseChar c else c)
                  (enumerate 0 ''b3f8b3f8b3f8b3f8b3f8b3f8b3f8b3f8b3f88888'')"
    unfolding checksumAddress_def Let_def lower sampleDigest.rep_eq hash ..
  also have "\<dots> = ''0xB3f8B3f8B3f8B3f8B3f8B3f8B3f8B3f8B3f88888''"
    by (simp add: digestNibble_def pattern32_def toUpperCaseChar_def char_of_def bit_Suc_0_iff)
  finally show ?thesis .
qed

lemma sample_salt:
  "bytesToHex (pattern32 0x3c 0xc0 0x00) =
   ''0x3cc03cc03cc03cc03cc03cc03cc03cc03cc03cc03cc03cc03cc03cc03cc00000''"
  by (simp add: bytesToHex_def hexOfBytes_def hexes_def hexDigit_def pattern32_def)

lemma sample_loop:
  "vanityLoop sampleDigest FLAP_PORTAL_ADDRESS NON_TAX_TOKEN_IMPL ''8888''
     (initialSalt sampleDigest sampleSeed) 0 =
   Some (Inr (''0x3cc03cc03cc03cc03cc03cc03cc03cc03cc03cc03cc03cc03cc03cc03cc00000'', 2))"
proof -
  have "increment (increment 0) = 2"
    by (simp add: increment_def)
  then have "vanityLoop sampleDigest FLAP_PORTAL_ADDRESS NON_TAX_TOKEN_IMPL ''8888''
     (initialSalt sampleDigest sampleSeed) 0 = Some (Inr (bytesToHex (pattern32 0x3c 0xc0 0x00), 2))"
    by (simp add: sample_initialSalt vanityLoop_rejected [OF sample_rejected_0]
        vanityLoop_rejected [OF sample_rejected_1] vanityLoop_accepted [OF sample_accepted_2]
        sample_keccak256 sample_chain)
  then show ?thesis
    by (simp only: sample_salt)
qed

lemma sample_search:
  "findVanityTokenSalt sampleDigest sampleSeed =
   Some (Inr (''0x3cc03cc03cc03cc03cc03cc03cc03cc03cc03cc03cc03cc03cc03cc03cc00000'',
              ''0xB3f8B3f8B3f8B3f8B3f8B3f8B3f8B3f8B3f88888''))"
proof -
  have "predictVanityTokenAddress sampleDigest FLAP_PORTAL_ADDRESS NON_TAX_TOKEN_IMPL
          (bytesToHex (pattern32 0x3c 0xc0 0x00)) =
        Inr ''0xB3f8B3f8B3f8B3f8B3f8B3f8B3f8B3f8B3f88888''"
    by (simp add: sample_predict sample_create2 sample_lowercase_addresses sample_checksum)
  then have "predictVanityTokenAddress sampleDigest FLAP_PORTAL_ADDRESS NON_TAX_TOKEN_IMPL
          ''0x3cc03cc03cc03cc03cc03cc03cc03cc03cc03cc03cc03cc03cc03cc03cc00000'' =
        Inr ''0xB3f8B3f8B3f8B3f8B3f8B3f8B3f8B3f8B3f88888''"
    by (simp only: sample_salt)
  then show ?thesis
    by (simp add: findVanityTokenSalt_def vanitySearch_def sample_loop)
qed

lemma sample_hashOfSeedBytes:
  "hashOfSeedBytes sampleDigest sampleSeed = bytesToHex (pattern32 0x38 0xe4 0x44)"
  by (simp add: hashOfSeedBytes_def sampleDigest.rep_eq sampleDigestBytes_def sampleSum_def
      sampleSeed_def pattern32_def Let_def)

section \<open>Properties of the FlapService methods\<close>

lemma scanLogs_find:
  "scanLogs decode logs found =
     (case List.find (decodesToTokenCreated decode) logs of
        None \<Rightarrow> found
      | Some log \<Rightarrow> (case decode log of Inl e \<Rightarrow> found | Inr decoded \<Rightarrow> args_token decoded))"
  by (induction logs) (auto simp: decodesToTokenCreated_def split: sum.splits)

lemma scanLogs_none:
  "\<forall>log\<in>set logs. \<not> decodesToTokenCreated decode log \<Longrightarrow> scanLogs decode logs found = found"
  by (induction logs) (auto simp: decodesToTokenCreated_def split: sum.splits)

lemma scanLogs_changed:
  assumes "scanLogs decode logs found \<noteq> found"
  shows "\<exists>log decoded. log \<in> set logs \<and> topic0Truthy log \<and> decode log = Inr decoded \<and>
           eventName decoded = ''TokenCreated'' \<and> args_token decoded = scanLogs decode logs found"
  using assms
  by (induction logs) (auto split: sum.splits if_splits)

lemma sellTokens_trace:
  "sellTokens W token amount tr = (res, tr') \<Longrightarrow>
   \<exists>rest. tr' = tr @ rest \<and>
     (\<forall>req. WriteContract req \<in> set rest \<longrightarrow>
        req = approveRequest token amount \<or> req = sellRequest token amount) \<and>
     (\<forall>hash. res = Inr hash \<longrightarrow>
        (\<exists>approveHash. rest = [WriteContract (approveRequest token amount),
                                WaitForTransactionReceipt approveHash,
                                WriteContract (sellRequest token amount),
                                WaitForTransactionReceipt hash]))"
  by (auto simp: sellTokens_def bindIO_def writeContractIO_def waitForTransactionReceiptIO_def
      returnIO_def split: sum.splits prod.splits)

lemma sellAllTokens_requests:
  assumes "sellAllTokens W token tr = (res, tr')"
  shows "\<exists>rest. tr' = tr @ ReadContract (balanceOfRequest W token) # rest \<and>
           (\<forall>balance. readContract W (balanceOfRequest W token) = Inr balance \<longrightarrow>
              (balance = 0 \<longrightarrow> res = Inr () \<and> rest = []) \<and>
              (balance \<noteq> 0 \<longrightarrow>
                 (\<forall>req. WriteContract req \<in> set rest \<longrightarrow>
                    req = approveRequest token balance \<or> req = sellRequest token balance) \<and>
                 (res = Inr () \<longrightarrow>
                    (\<exists>approveHash hash.
                       rest = [WriteContract (approveRequest token balance),
                               WaitForTransactionReceipt approveHash,
                               WriteContract (sellRequest token balance),
                               WaitForTransactionReceipt hash]))))"
proof (cases "readContract W (balanceOfRequest W token)")
  case (Inl e)
  then show ?thesis using assms
    by (auto simp: sellAllTokens_def getTokenBalance_def readContractIO_def bindIO_def)
next
  case (Inr balance)
  show ?thesis
  proof (cases "balance = 0")
    case True
    then show ?thesis using assms Inr
      by (auto simp: sellAllTokens_def getTokenBalance_def readContractIO_def bindIO_def
          returnIO_def)
  next
    case False
    obtain r t where sell: "sellTokens W token balance
        (tr @ [ReadContract (balanceOfRequest W token)]) = (r, t)"
      by (cases "sellTokens W token balance (tr @ [ReadContract (balanceOfRequest W token)])")
    from sellTokens_trace [OF sell] obtain rest where
      t: "t = (tr @ [ReadContract (balanceOfRequest W token)]) @ rest"
      and writes: "\<forall>req. WriteContract req \<in> set rest \<longrightarrow>
        req = approveRequest token balance \<or> req = sellRequest token balance"
      and complete: "\<forall>hash. r = Inr hash \<longrightarrow>
        (\<exists>approveHash. rest = [WriteContract (approveRequest token balance),
                                WaitForTransactionReceipt approveHash,
                                WriteContract (sellRequest token balance),
                                WaitForTransactionReceipt hash])"
      by blast
    have res: "tr' = t" "res = Inr () \<longleftrightarrow> (\<exists>hash. r = Inr hash)"
      using assms Inr False sell
      by (auto simp: sellAllTokens_def getTokenBalance_def readContractIO_def bindIO_def
          returnIO_def split: sum.splits)
    show ?thesis
    proof (intro exI [of _ rest] conjI allI impI)
      show "tr' = tr @ ReadContract (balanceOfRequest W token) # rest"
        using res(1) t by simp
    qed (use Inr False writes complete res(2) in auto)
  qed
qed











section \<open>The claims\<close>

text \<open>
  Claim C1. Whenever the search returns a pair of a salt and an address, the address is
  the one predicted for that salt, and its lowercase hex form ends with the suffix searched
  for; that lowercase form is the hex of the CREATE2 formula's 20 bytes. This holds for every
  deployer, implementation address and suffix on which the search returns, and so for the
  source's function, whose suffix is \<^verbatim>\<open>8888\<close>.
\<close>

theorem vanity_result_ends_with_suffix:
  "(vanitySearch K deployer impl suffix randomBytes = Some (Inr (salt, address)) \<longrightarrow>
      predictVanityTokenAddress K deployer impl salt = Inr address \<and>
      endsWith (toLowerCase address) suffix \<and>
      toLowerCase address =
        bytesToHex (create2Formula K (hexToBytes deployer)
          (replicate (32 - length (toBytes salt)) 0 @ toBytes salt)
          (toBytes (proxyBytecode impl)))) \<and>
   (findVanityTokenSalt K randomBytes = Some (Inr (salt, address)) \<longrightarrow>
      predictVanityTokenAddress K FLAP_PORTAL_ADDRESS NON_TAX_TOKEN_IMPL salt = Inr address \<and>
      endsWith (toLowerCase address) ''8888'')"
  unfolding findVanityTokenSalt_def
  using vanitySearch_result [of K deployer impl suffix randomBytes salt address]
    vanitySearch_result [of K FLAP_PORTAL_ADDRESS NON_TAX_TOKEN_IMPL "''8888''" randomBytes
      salt address]
  by blast

theorem vanity_result_ends_with_suffix_witness:
  "findVanityTokenSalt sampleDigest sampleSeed =
     Some (Inr (''0x3cc03cc03cc03cc03cc03cc03cc03cc03cc03cc03cc03cc03cc03cc03cc00000'',
                ''0xB3f8B3f8B3f8B3f8B3f8B3f8B3f8B3f8B3f88888'')) \<and>
   predictVanityTokenAddress sampleDigest FLAP_PORTAL_ADDRESS NON_TAX_TOKEN_IMPL
     ''0x3cc03cc03cc03cc03cc03cc03cc03cc03cc03cc03cc03cc03cc03cc03cc00000'' =
     Inr ''0xB3f8B3f8B3f8B3f8B3f8B3f8B3f8B3f8B3f88888'' \<and>
   endsWith (toLowerCase ''0xB3f8B3f8B3f8B3f8B3f8B3f8B3f8B3f8B3f88888'') ''8888''"
  using sample_search
    vanity_result_ends_with_suffix [of sampleDigest FLAP_PORTAL_ADDRESS NON_TAX_TOKEN_IMPL
      "''8888''" sampleSeed
      "''0x3cc03cc03cc03cc03cc03cc03cc03cc03cc03cc03cc03cc03cc03cc03cc00000''"
      "''0xB3f8B3f8B3f8B3f8B3f8B3f8B3f8B3f8B3f88888''"]
  by blast

text \<open>
  Claim C5. The bytecode that is hashed in the prediction is the minimal-proxy template
  with the implementation address spliced in: the fixed prefix, the 20 bytes of the address
  (its digits in lower case, without \<^verbatim>\<open>0x\<close>), and the fixed suffix, 55 bytes in all.
\<close>

theorem proxy_bytecode_is_template:
  assumes "isAddress impl"
  shows "proxyBytecode impl =
           ''0x3d602d80600a3d3981f3363d3d373d3d3d363d73'' @ toLowerCase (drop 2 impl) @
           ''5af43d82803e903d91602b57fd5bf3'' \<and>
         toBytes (proxyBytecode impl) = proxyPrefixBytes @ hexToBytes impl @ proxySuffixBytes \<and>
         length (hexToBytes impl) = 20 \<and>
         length (toBytes (proxyBytecode impl)) = 55 \<and>
         keccak256_bytes K (proxyBytecode impl) =
           digestBytes (K (proxyPrefixBytes @ hexToBytes impl @ proxySuffixBytes)) \<and>
         predictVanityTokenAddress K deployer impl salt =
           getContractAddress K deployer (toBytes salt) (proxyBytecode impl)"
proof -
  have bytes: "toBytes (proxyBytecode impl) = proxyPrefixBytes @ hexToBytes impl @ proxySuffixBytes"
    using assms by (rule toBytes_proxyBytecode)
  have len: "length (hexToBytes impl) = 20"
    using assms by (rule length_hexToBytes_address)
  have "length (toBytes (proxyBytecode impl)) = 55"
    by (simp add: bytes len proxyPrefixBytes_def proxySuffixBytes_def)
  moreover have "keccak256_bytes K (proxyBytecode impl) =
      digestBytes (K (proxyPrefixBytes @ hexToBytes impl @ proxySuffixBytes))"
    by (simp only: keccak256_bytes_def bytes)
  moreover have "proxyBytecode impl =
      ''0x3d602d80600a3d3981f3363d3d373d3d3d363d73'' @ toLowerCase (drop 2 impl) @
      ''5af43d82803e903d91602b57fd5bf3''"
    by (simp only: proxyBytecode_def slice2_def)
  moreover have "predictVanityTokenAddress K deployer impl salt =
      getContractAddress K deployer (toBytes salt) (proxyBytecode impl)"
    by (simp only: predictVanityTokenAddress_def)
  ultimately show ?thesis using bytes len by blast
qed

theorem proxy_bytecode_is_template_witness:
  "isAddress NON_TAX_TOKEN_IMPL \<and>
   proxyBytecode NON_TAX_TOKEN_IMPL =
     ''0x3d602d80600a3d3981f3363d3d373d3d3d363d73'' @ ''8b4329947e34b6d56d71a3385cac122bade7d78d'' @
     ''5af43d82803e903d91602b57fd5bf3'' \<and>
   toBytes (proxyBytecode NON_TAX_TOKEN_IMPL) =
     proxyPrefixBytes @ hexToBytes NON_TAX_TOKEN_IMPL @ proxySuffixBytes"
proof -
  have "proxyBytecode NON_TAX_TOKEN_IMPL =
     ''0x3d602d80600a3d3981f3363d3d373d3d3d363d73'' @ ''8b4329947e34b6d56d71a3385cac122bade7d78d'' @
     ''5af43d82803e903d91602b57fd5bf3''"
    by (simp add: proxyBytecode_NON_TAX_TOKEN_IMPL)
  moreover have "toBytes (proxyBytecode NON_TAX_TOKEN_IMPL) =
     proxyPrefixBytes @ hexToBytes NON_TAX_TOKEN_IMPL @ proxySuffixBytes"
    using proxy_bytecode_is_template [OF isAddress_NON_TAX_TOKEN_IMPL, of sampleDigest]
    by blast
  ultimately show ?thesis
    using isAddress_NON_TAX_TOKEN_IMPL by blast
qed

text \<open>
  Claim C6. On a rejection the loop goes on with the hash of the current salt, so the
  salts examined are the elements of the hash chain of the initial salt in order, and the
  salt returned is the first element of the chain that is accepted.
\<close>

theorem vanity_salt_first_accepted_on_chain:
  "(rejected K deployer impl suffix salt \<longrightarrow>
      vanityLoop K deployer impl suffix salt iterations =
      vanityLoop K deployer impl suffix (keccak256 K salt) (increment iterations)) \<and>
   saltChain K salt0 0 = salt0 \<and>
   saltChain K salt0 (Suc m) = keccak256 K (saltChain K salt0 m) \<and>
   (vanitySearch K deployer impl suffix randomBytes = Some (Inr (found, address)) \<longrightarrow>
      (\<exists>n. found = saltChain K (initialSalt K randomBytes) n \<and>
           accepted K deployer impl suffix (saltChain K (initialSalt K randomBytes) n) \<and>
           (\<forall>m<n. rejected K deployer impl suffix (saltChain K (initialSalt K randomBytes) m) \<and>
                  \<not> accepted K deployer impl suffix (saltChain K (initialSalt K randomBytes) m)) \<and>
           vanityLoop K deployer impl suffix (initialSalt K randomBytes) 0 =
             Some (Inr (found, (increment ^^ n) 0))))"
proof (intro conjI impI)
  assume "rejected K deployer impl suffix salt"
  then show "vanityLoop K deployer impl suffix salt iterations =
      vanityLoop K deployer impl suffix (keccak256 K salt) (increment iterations)"
    by (rule vanityLoop_rejected)
next
  show "saltChain K salt0 0 = salt0"
    by (rule saltChain_0)
next
  show "saltChain K salt0 (Suc m) = keccak256 K (saltChain K salt0 m)"
    by (simp add: saltChain_def)
next
  assume run: "vanitySearch K deployer impl suffix randomBytes = Some (Inr (found, address))"
  then obtain n iterations where
    loop: "vanityLoop K deployer impl suffix (initialSalt K randomBytes) 0 =
             Some (Inr (found, iterations))"
    and exit: "loopExit K deployer impl suffix (initialSalt K randomBytes) 0 n
                 (Inr (found, iterations))"
    using vanitySearch_Inr [OF run] by blast
  from exit have found: "found = saltChain K (initialSalt K randomBytes) n"
    and its: "iterations = (increment ^^ n) 0"
    and acc: "accepted K deployer impl suffix found"
    and rej: "\<forall>m<n. rejected K deployer impl suffix (saltChain K (initialSalt K randomBytes) m)"
    by (auto simp: loopExit_def)
  show "\<exists>n. found = saltChain K (initialSalt K randomBytes) n \<and>
           accepted K deployer impl suffix (saltChain K (initialSalt K randomBytes) n) \<and>
           (\<forall>m<n. rejected K deployer impl suffix (saltChain K (initialSalt K randomBytes) m) \<and>
                  \<not> accepted K deployer impl suffix (saltChain K (initialSalt K randomBytes) m)) \<and>
           vanityLoop K deployer impl suffix (initialSalt K randomBytes) 0 =
             Some (Inr (found, (increment ^^ n) 0))"
    using found its acc rej loop rejected_not_accepted by blast
qed

theorem vanity_salt_first_accepted_on_chain_witness:
  "vanitySearch sampleDigest FLAP_PORTAL_ADDRESS NON_TAX_TOKEN_IMPL ''8888'' sampleSeed =
     Some (Inr (''0x3cc03cc03cc03cc03cc03cc03cc03cc03cc03cc03cc03cc03cc03cc03cc00000'',
                ''0xB3f8B3f8B3f8B3f8B3f8B3f8B3f8B3f8B3f88888'')) \<and>
   (\<exists>n. ''0x3cc03cc03cc03cc03cc03cc03cc03cc03cc03cc03cc03cc03cc03cc03cc00000'' =
          saltChain sampleDigest (initialSalt sampleDigest sampleSeed) n \<and>
        accepted sampleDigest FLAP_PORTAL_ADDRESS NON_TAX_TOKEN_IMPL ''8888''
          (saltChain sampleDigest (initialSalt sampleDigest sampleSeed) n))"
proof -
  have run: "vanitySearch sampleDigest FLAP_PORTAL_ADDRESS NON_TAX_TOKEN_IMPL ''8888'' sampleSeed =
     Some (Inr (''0x3cc03cc03cc03cc03cc03cc03cc03cc03cc03cc03cc03cc03cc03cc03cc00000'',
                ''0xB3f8B3f8B3f8B3f8B3f8B3f8B3f8B3f8B3f88888''))"
    using sample_search by (simp add: findVanityTokenSalt_def)
  then show ?thesis
    using vanity_salt_first_accepted_on_chain
      [of sampleDigest FLAP_PORTAL_ADDRESS NON_TAX_TOKEN_IMPL "''8888''" _ _ _ _ sampleSeed
        "''0x3cc03cc03cc03cc03cc03cc03cc03cc03cc03cc03cc03cc03cc03cc03cc00000''"
        "''0xB3f8B3f8B3f8B3f8B3f8B3f8B3f8B3f8B3f88888''"]
    by blast
qed




text \<open>
  Claim C2, as stated: the initial salt is the hash of the raw 32 seed bytes. The source
  hashes \<^verbatim>\<open>toHex(seed)\<close>, where \<^verbatim>\<open>seed\<close> is already the hex text of the random bytes, so
  the bytes hashed are the 66 characters of that text. On the sample digest and seed the two
  salts differ.
\<close>

theorem initial_salt_is_not_hash_of_raw_seed:
  "initialSalt sampleDigest sampleSeed \<noteq> hashOfSeedBytes sampleDigest sampleSeed"
proof
  assume "initialSalt sampleDigest sampleSeed = hashOfSeedBytes sampleDigest sampleSeed"
  then have "bytesToHex (pattern32 0xbc 0x29 0x99) = bytesToHex (pattern32 0x38 0xe4 0x44)"
    by (simp only: sample_initialSalt sample_hashOfSeedBytes)
  then have "pattern32 0xbc 0x29 0x99 = pattern32 0x38 0xe4 0x44"
    by (rule bytesToHex_inject)
  then show False
    by (simp add: pattern32_def)
qed

text \<open>
  Claim C2, amended: the initial salt is the digest of the characters of the seed text,
  \<^verbatim>\<open>0x\<close> followed by the lowercase hex digits of the random bytes (66 characters for 32
  bytes); this message is never the random bytes themselves.
\<close>

theorem initial_salt_hashes_seed_text:
  "initialSalt K randomBytes =
     bytesToHex (digestBytes (K (stringToBytes (''0x'' @ hexOfBytes randomBytes)))) \<and>
   toBytes (toHex (seedOf randomBytes)) = stringToBytes (''0x'' @ hexOfBytes randomBytes) \<and>
   length (stringToBytes (''0x'' @ hexOfBytes randomBytes)) = 2 + 2 * length randomBytes \<and>
   stringToBytes (''0x'' @ hexOfBytes randomBytes) \<noteq> randomBytes"
proof -
  have len: "length (stringToBytes (''0x'' @ hexOfBytes randomBytes)) = 2 + 2 * length randomBytes"
    using length_stringToBytes_seedOf [of randomBytes] by (simp add: seedOf_def)
  then have "length (stringToBytes (''0x'' @ hexOfBytes randomBytes)) \<noteq> length randomBytes"
    by arith
  then have "stringToBytes (''0x'' @ hexOfBytes randomBytes) \<noteq> randomBytes"
    by (rule contrapos_nn) (rule arg_cong [of _ _ length])
  moreover note len
  moreover have "toBytes (toHex (seedOf randomBytes)) = stringToBytes (''0x'' @ hexOfBytes randomBytes)"
    by (simp add: toHex_def toBytes_bytesToHex seedOf_def)
  ultimately show ?thesis
    using initialSalt_message [of K randomBytes] by (simp add: seedOf_def)
qed

text \<open>
  Claim C8, as stated: the search takes the deployer, the implementation address and the
  suffix from its caller. The source's function has no parameters; a caller who wants the
  empty suffix still gets the search for \<^verbatim>\<open>8888\<close>, which on the sample inputs returns
  another salt than the search for the empty suffix does.
\<close>

theorem search_ignores_requested_suffix:
  "findVanityTokenSalt sampleDigest sampleSeed \<noteq>
   vanitySearch sampleDigest FLAP_PORTAL_ADDRESS NON_TAX_TOKEN_IMPL [] sampleSeed"
proof
  assume same: "findVanityTokenSalt sampleDigest sampleSeed =
    vanitySearch sampleDigest FLAP_PORTAL_ADDRESS NON_TAX_TOKEN_IMPL [] sampleSeed"
  obtain address where
    "vanitySearch sampleDigest FLAP_PORTAL_ADDRESS NON_TAX_TOKEN_IMPL [] sampleSeed =
       Some (Inr (initialSalt sampleDigest sampleSeed, address))"
    using vanitySearch_empty_suffix [OF isAddress_FLAP_PORTAL_ADDRESS] by blast
  then have "''0x3cc03cc03cc03cc03cc03cc03cc03cc03cc03cc03cc03cc03cc03cc03cc00000'' =
      initialSalt sampleDigest sampleSeed"
    using same sample_search by simp
  then have "bytesToHex (pattern32 0x3c 0xc0 0x00) = bytesToHex (pattern32 0xbc 0x29 0x99)"
    by (simp only: sample_salt sample_initialSalt)
  then have "pattern32 0x3c 0xc0 0x00 = pattern32 0xbc 0x29 0x99"
    by (rule bytesToHex_inject)
  then show False
    by (simp add: pattern32_def)
qed

text \<open>
  Claim C8, amended: \<open>findVanityTokenSalt\<close> takes no configuration. Its result is that of
  the search for the module's portal address, the module's implementation address and the
  suffix \<^verbatim>\<open>8888\<close>: a returned address ends with \<^verbatim>\<open>8888\<close> and is the CREATE2 address for
  the bytes of these two constants.
\<close>

theorem search_reads_module_constants:
  "findVanityTokenSalt K randomBytes =
     vanitySearch K FLAP_PORTAL_ADDRESS NON_TAX_TOKEN_IMPL ''8888'' randomBytes \<and>
   (findVanityTokenSalt K randomBytes = Some (Inr (salt, address)) \<longrightarrow>
      endsWith (toLowerCase address) ''8888'' \<and>
      toLowerCase address =
        bytesToHex (create2Formula K
          [0xe2, 0xce, 0x6a, 0xb8, 0x08, 0x74, 0xfa, 0x9f, 0xa2, 0xaa,
           0xe6, 0x5d, 0x27, 0x7d, 0xd6, 0xb8, 0xe6, 0x5c, 0x9d, 0xe0]
          (replicate (32 - length (toBytes salt)) 0 @ toBytes salt)
          (proxyPrefixBytes @
           [0x8b, 0x43, 0x29, 0x94, 0x7e, 0x34, 0xb6, 0xd5, 0x6d, 0x71,
            0xa3, 0x38, 0x5c, 0xac, 0x12, 0x2b, 0xad, 0xe7, 0xd7, 0x8d] @
           proxySuffixBytes)))"
proof (intro conjI impI)
  show "findVanityTokenSalt K randomBytes =
     vanitySearch K FLAP_PORTAL_ADDRESS NON_TAX_TOKEN_IMPL ''8888'' randomBytes"
    by (simp only: findVanityTokenSalt_def)
next
  assume "findVanityTokenSalt K randomBytes = Some (Inr (salt, address))"
  then have run: "vanitySearch K FLAP_PORTAL_ADDRESS NON_TAX_TOKEN_IMPL ''8888'' randomBytes =
      Some (Inr (salt, address))"
    by (simp only: findVanityTokenSalt_def)
  show "endsWith (toLowerCase address) ''8888''"
    using vanitySearch_result [OF run] by blast
  have "toLowerCase address =
        bytesToHex (create2Formula K (hexToBytes FLAP_PORTAL_ADDRESS)
          (replicate (32 - length (toBytes salt)) 0 @ toBytes salt)
          (toBytes (proxyBytecode NON_TAX_TOKEN_IMPL)))"
    using vanitySearch_result [OF run] by blast
  then show "toLowerCase address =
        bytesToHex (create2Formula K
          [0xe2, 0xce, 0x6a, 0xb8, 0x08, 0x74, 0xfa, 0x9f, 0xa2, 0xaa,
           0xe6, 0x5d, 0x27, 0x7d, 0xd6, 0xb8, 0xe6, 0x5c, 0x9d, 0xe0]
          (replicate (32 - length (toBytes salt)) 0 @ toBytes salt)
          (proxyPrefixBytes @
           [0x8b, 0x43, 0x29, 0x94, 0x7e, 0x34, 0xb6, 0xd5, 0x6d, 0x71,
            0xa3, 0x38, 0x5c, 0xac, 0x12, 0x2b, 0xad, 0xe7, 0xd7, 0x8d] @
           proxySuffixBytes))"
    by (simp only: hexToBytes_FLAP_PORTAL_ADDRESS hexToBytes_NON_TAX_TOKEN_IMPL
        toBytes_proxyBytecode [OF isAddress_NON_TAX_TOKEN_IMPL])
qed

theorem search_reads_module_constants_witness:
  "findVanityTokenSalt sampleDigest sampleSeed =
     Some (Inr (''0x3cc03cc03cc03cc03cc03cc03cc03cc03cc03cc03cc03cc03cc03cc03cc00000'',
                ''0xB3f8B3f8B3f8B3f8B3f8B3f8B3f8B3f8B3f88888'')) \<and>
   endsWith (toLowerCase ''0xB3f8B3f8B3f8B3f8B3f8B3f8B3f8B3f8B3f88888'') ''8888''"
  using sample_search
    search_reads_module_constants [of sampleDigest sampleSeed
      "''0x3cc03cc03cc03cc03cc03cc03cc03cc03cc03cc03cc03cc03cc03cc03cc00000''"
      "''0xB3f8B3f8B3f8B3f8B3f8B3f8B3f8B3f8B3f88888''"]
  by blast

text \<open>
  Claim C9. \<open>createToken\<close> never returns the zero address. When it returns, the token
  address is the \<^verbatim>\<open>token\<close> argument of a log of the receipt that decodes to a
  \<^verbatim>\<open>TokenCreated\<close> event; when the call reaches the receipt and no log of it decodes to such
  an event, it raises \<^verbatim>\<open>Token address not found in transaction logs\<close>.
\<close>

theorem createToken_never_returns_zero_address:
  assumes "createToken W name symbol imageUrl tweetUrl description initialBuyAmount tr =
             Some (res, tr')"
  shows "(\<forall>created. res = Inr created \<longrightarrow>
            tokenAddress created \<noteq> ZERO_ADDRESS \<and>
            (\<exists>receipt log decoded.
               waitForTransactionReceipt W (txHash created) = Inr receipt \<and>
               log \<in> set (receipt_logs receipt) \<and> topic0Truthy log \<and>
               decodeEventLog W log = Inr decoded \<and>
               eventName decoded = ''TokenCreated'' \<and>
               args_token decoded = tokenAddress created)) \<and>
         (\<forall>quoteAmount cid salt predictedAddress hash receipt.
            parseEther W (initialBuyAmountOrDefault initialBuyAmount) = Inr quoteAmount \<and>
            uploadFlapMetadata W imageUrl name symbol (descriptionOrDefault name description)
              tweetUrl = Some cid \<and> cid \<noteq> [] \<and>
            findVanityTokenSalt (keccak W) (randomBytes32 W) = Some (Inr (salt, predictedAddress)) \<and>
            writeContract W
              (newTokenV5Request (newTokenV5Params W name symbol cid salt quoteAmount) quoteAmount)
              = Inr hash \<and>
            waitForTransactionReceipt W hash = Inr receipt \<and>
            (\<forall>log\<in>set (receipt_logs receipt). \<not> decodesToTokenCreated (decodeEventLog W) log)
            \<longrightarrow> res = Inl (Error ''Token address not found in transaction logs''))"
proof (intro conjI allI impI)
  fix created
  assume ok: "res = Inr created"
  from assms ok obtain hash receipt where
    receipt: "waitForTransactionReceipt W hash = Inr receipt"
    and found: "scanLogs (decodeEventLog W) (receipt_logs receipt) ZERO_ADDRESS \<noteq> ZERO_ADDRESS"
    and created: "created = \<lparr> tokenAddress = scanLogs (decodeEventLog W) (receipt_logs receipt)
                                ZERO_ADDRESS, txHash = hash \<rparr>"
    by (auto simp: createToken_def Let_def bindIO_def writeContractIO_def
        waitForTransactionReceiptIO_def throwIO_def returnIO_def
        split: sum.splits option.splits if_splits prod.splits)
  show "tokenAddress created \<noteq> ZERO_ADDRESS"
    using found created by simp
  show "\<exists>receipt log decoded.
               waitForTransactionReceipt W (txHash created) = Inr receipt \<and>
               log \<in> set (receipt_logs receipt) \<and> topic0Truthy log \<and>
               decodeEventLog W log = Inr decoded \<and>
               eventName decoded = ''TokenCreated'' \<and>
               args_token decoded = tokenAddress created"
    using scanLogs_changed [OF found] receipt created by auto
next
  fix quoteAmount cid salt predictedAddress hash receipt
  assume steps: "parseEther W (initialBuyAmountOrDefault initialBuyAmount) = Inr quoteAmount \<and>
            uploadFlapMetadata W imageUrl name symbol (descriptionOrDefault name description)
              tweetUrl = Some cid \<and> cid \<noteq> [] \<and>
            findVanityTokenSalt (keccak W) (randomBytes32 W) = Some (Inr (salt, predictedAddress)) \<and>
            writeContract W
              (newTokenV5Request (newTokenV5Params W name symbol cid salt quoteAmount) quoteAmount)
              = Inr hash \<and>
            waitForTransactionReceipt W hash = Inr receipt \<and>
            (\<forall>log\<in>set (receipt_logs receipt). \<not> decodesToTokenCreated (decodeEventLog W) log)"
  then have "scanLogs (decodeEventLog W) (receipt_logs receipt) ZERO_ADDRESS = ZERO_ADDRESS"
    by (simp add: scanLogs_none)
  then show "res = Inl (Error ''Token address not found in transaction logs'')"
    using assms steps
    by (simp add: createToken_def Let_def bindIO_def writeContractIO_def
        waitForTransactionReceiptIO_def throwIO_def)
qed


theorem createToken_never_returns_zero_address_witness:
  "map_option fst (createToken (sampleWorld [sampleOtherLog, sampleCreatedLog] 5)
      ''Meow'' ''MEOW'' ''https://example.org/cat.png'' None None None []) =
     Some (Inr \<lparr> tokenAddress = ''0xB3f8B3f8B3f8B3f8B3f8B3f8B3f8B3f8B3f88888'',
                  txHash = ''0xb2'' \<rparr>) \<and>
   ''0xB3f8B3f8B3f8B3f8B3f8B3f8B3f8B3f8B3f88888'' \<noteq> ZERO_ADDRESS \<and>
   map_option fst (createToken (sampleWorld [sampleOtherLog] 5)
      ''Meow'' ''MEOW'' ''https://example.org/cat.png'' None None None []) =
     Some (Inl (Error ''Token address not found in transaction logs''))"
proof -
  let ?W = "sampleWorld [sampleOtherLog, sampleCreatedLog] 5"
  let ?V = "sampleWorld [sampleOtherLog] 5"
  have search: "findVanityTokenSalt (keccak W) (randomBytes32 W) =
      Some (Inr (''0x3cc03cc03cc03cc03cc03cc03cc03cc03cc03cc03cc03cc03cc03cc03cc00000'',
                 ''0xB3f8B3f8B3f8B3f8B3f8B3f8B3f8B3f8B3f88888''))"
    if "W = sampleWorld logs 5" for W logs
    using sample_search that by (simp add: sampleWorld_def)
  have r1: "map_option fst (createToken ?W ''Meow'' ''MEOW'' ''https://example.org/cat.png''
      None None None []) =
     Some (Inr \<lparr> tokenAddress = ''0xB3f8B3f8B3f8B3f8B3f8B3f8B3f8B3f8B3f88888'',
                  txHash = ''0xb2'' \<rparr>)"
    by (simp add: createToken_def sample_search Let_def bindIO_def writeContractIO_def
        waitForTransactionReceiptIO_def throwIO_def returnIO_def sampleWorld_def
        sampleOtherLog_def sampleCreatedLog_def topic0Truthy_def ZERO_ADDRESS_def
        newTokenV5Request_def initialBuyAmountOrDefault_def)
  then obtain tr1 where run1: "createToken ?W ''Meow'' ''MEOW'' ''https://example.org/cat.png''
      None None None [] =
     Some (Inr \<lparr> tokenAddress = ''0xB3f8B3f8B3f8B3f8B3f8B3f8B3f8B3f8B3f88888'',
                  txHash = ''0xb2'' \<rparr>, tr1)"
    by (cases "createToken ?W ''Meow'' ''MEOW'' ''https://example.org/cat.png''
      None None None []") auto
  have "createToken ?V ''Meow'' ''MEOW'' ''https://example.org/cat.png''
      None None None [] \<noteq> None"
    by (simp add: createToken_def sample_search Let_def sampleWorld_def
        initialBuyAmountOrDefault_def)
  then obtain tr2 res2 where run2: "createToken ?V ''Meow'' ''MEOW'' ''https://example.org/cat.png''
      None None None [] = Some (res2, tr2)"
    by (cases "createToken ?V ''Meow'' ''MEOW'' ''https://example.org/cat.png''
      None None None []") auto
  have "res2 = Inl (Error ''Token address not found in transaction logs'')"
    using createToken_never_returns_zero_address [OF run2] search [of ?V, OF refl]
    by (simp add: sampleWorld_def sampleOtherLog_def decodesToTokenCreated_def
        initialBuyAmountOrDefault_def newTokenV5Request_def)
  moreover have "''0xB3f8B3f8B3f8B3f8B3f8B3f8B3f8B3f8B3f88888'' \<noteq> ZERO_ADDRESS"
    using createToken_never_returns_zero_address [OF run1] by simp
  ultimately show ?thesis
    using r1 run2 by simp
qed

text \<open>
  Claim C10. \<open>sellAllTokens\<close> first reads the balance of the wallet: \<^verbatim>\<open>balanceOf\<close> of the
  account's address on the token contract. When the balance read is zero it returns with no
  further request. Otherwise every transaction it sends is either \<^verbatim>\<open>approve\<close> on the token
  contract, for the portal and exactly the balance read, or \<^verbatim>\<open>sell\<close> on the portal, of the
  token, exactly the balance read and minimum 0; a successful run sends the approval and
  then the sale, waiting for each.
\<close>

theorem sellAllTokens_sells_the_balance_read:
  assumes "sellAllTokens W token tr = (res, tr')"
  shows "\<exists>rest.
           tr' = tr @ ReadContract
                   \<lparr> req_address = token, req_abi = ERC20_ABI, req_functionName = ''balanceOf'',
                     req_args = [AddressArg (account_address W)], req_value = None \<rparr> # rest \<and>
           (\<forall>balance.
              readContract W
                \<lparr> req_address = token, req_abi = ERC20_ABI, req_functionName = ''balanceOf'',
                  req_args = [AddressArg (account_address W)], req_value = None \<rparr> = Inr balance \<longrightarrow>
              (balance = 0 \<longrightarrow> res = Inr () \<and> rest = []) \<and>
              (balance \<noteq> 0 \<longrightarrow>
                 (\<forall>req. WriteContract req \<in> set rest \<longrightarrow>
                    req = \<lparr> req_address = token, req_abi = ERC20_ABI, req_functionName = ''approve'',
                            req_args = [AddressArg ''0xe2cE6ab80874Fa9Fa2aAE65D277Dd6B8e65C9De0'', UintArg balance],
                            req_value = None \<rparr> \<or>
                    req = \<lparr> req_address = ''0xe2cE6ab80874Fa9Fa2aAE65D277Dd6B8e65C9De0'',
                            req_abi = FLAP_ABI, req_functionName = ''sell'',
                            req_args = [AddressArg token, UintArg balance, UintArg 0], req_value = None \<rparr>) \<and>
                 (res = Inr () \<longrightarrow>
                    (\<exists>approveHash hash.
                       rest = [WriteContract
                                 \<lparr> req_address = token, req_abi = ERC20_ABI, req_functionName = ''approve'',
                                   req_args = [AddressArg ''0xe2cE6ab80874Fa9Fa2aAE65D277Dd6B8e65C9De0'', UintArg balance],
                                   req_value = None \<rparr>,
                               WaitForTransactionReceipt approveHash,
                               WriteContract
                                 \<lparr> req_address = ''0xe2cE6ab80874Fa9Fa2aAE65D277Dd6B8e65C9De0'',
                                   req_abi = FLAP_ABI, req_functionName = ''sell'',
                                   req_args = [AddressArg token, UintArg balance, UintArg 0], req_value = None \<rparr>,
                               WaitForTransactionReceipt hash]))))"
  using sellAllTokens_requests [OF assms]
  unfolding balanceOfRequest_def approveRequest_def sellRequest_def FLAP_PORTAL_ADDRESS_def .

theorem sellAllTokens_sells_the_balance_read_witness:
  "sellAllTokens (sampleWorld [] 0) ''0xB3f8B3f8B3f8B3f8B3f8B3f8B3f8B3f8B3f88888'' [] =
     (Inr (),
      [ReadContract
         \<lparr> req_address = ''0xB3f8B3f8B3f8B3f8B3f8B3f8B3f8B3f8B3f88888'', req_abi = ERC20_ABI,
           req_functionName = ''balanceOf'',
           req_args = [AddressArg ''0x00000000000000000000000000000000000000a1''],
           req_value = None \<rparr>]) \<and>
   sellAllTokens (sampleWorld [] 5) ''0xB3f8B3f8B3f8B3f8B3f8B3f8B3f8B3f8B3f88888'' [] =
     (Inr (),
      [ReadContract
         \<lparr> req_address = ''0xB3f8B3f8B3f8B3f8B3f8B3f8B3f8B3f8B3f88888'', req_abi = ERC20_ABI,
           req_functionName = ''balanceOf'',
           req_args = [AddressArg ''0x00000000000000000000000000000000000000a1''],
           req_value = None \<rparr>,
       WriteContract
         \<lparr> req_address = ''0xB3f8B3f8B3f8B3f8B3f8B3f8B3f8B3f8B3f88888'', req_abi = ERC20_ABI,
           req_functionName = ''approve'',
           req_args = [AddressArg ''0xe2cE6ab80874Fa9Fa2aAE65D277Dd6B8e65C9De0'', UintArg 5],
           req_value = None \<rparr>,
       WaitForTransactionReceipt ''0xa1'',
       WriteContract
         \<lparr> req_address = ''0xe2cE6ab80874Fa9Fa2aAE65D277Dd6B8e65C9De0'', req_abi = FLAP_ABI,
           req_functionName = ''sell'',
           req_args = [AddressArg ''0xB3f8B3f8B3f8B3f8B3f8B3f8B3f8B3f8B3f88888'', UintArg 5,
                       UintArg 0],
           req_value = None \<rparr>,
       WaitForTransactionReceipt ''0xb2''])"
proof -
  let ?t = "''0xB3f8B3f8B3f8B3f8B3f8B3f8B3f8B3f8B3f88888''"
  obtain r0 t0 where run0: "sellAllTokens (sampleWorld [] 0) ?t [] = (r0, t0)"
    by (cases "sellAllTokens (sampleWorld [] 0) ?t []")
  have read: "readContract (sampleWorld [] b) req = Inr b" for b req
    by (simp add: sampleWorld_def)
  have account: "account_address (sampleWorld [] b) = ''0x00000000000000000000000000000000000000a1''"
    for b
    by (simp add: sampleWorld_def)
  have "r0 = Inr () \<and>
      t0 = [ReadContract
         \<lparr> req_address = ?t, req_abi = ERC20_ABI, req_functionName = ''balanceOf'',
           req_args = [AddressArg ''0x00000000000000000000000000000000000000a1''],
           req_value = None \<rparr>]"
    using sellAllTokens_sells_the_balance_read [OF run0] read [of 0] account [of 0] by auto
  moreover have "sellAllTokens (sampleWorld [] 5) ?t [] =
     (Inr (),
      [ReadContract
         \<lparr> req_address = ?t, req_abi = ERC20_ABI, req_functionName = ''balanceOf'',
           req_args = [AddressArg ''0x00000000000000000000000000000000000000a1''],
           req_value = None \<rparr>,
       WriteContract
         \<lparr> req_address = ?t, req_abi = ERC20_ABI, req_functionName = ''approve'',
           req_args = [AddressArg ''0xe2cE6ab80874Fa9Fa2aAE65D277Dd6B8e65C9De0'', UintArg 5],
           req_value = None \<rparr>,
       WaitForTransactionReceipt ''0xa1'',
       WriteContract
         \<lparr> req_address = ''0xe2cE6ab80874Fa9Fa2aAE65D277Dd6B8e65C9De0'', req_abi = FLAP_ABI,
           req_functionName = ''sell'', req_args = [AddressArg ?t, UintArg 5, UintArg 0],
           req_value = None \<rparr>,
       WaitForTransactionReceipt ''0xb2''])"
    by (simp add: sellAllTokens_def getTokenBalance_def readContractIO_def bindIO_def
        returnIO_def sellTokens_def writeContractIO_def waitForTransactionReceiptIO_def
        sampleWorld_def approveRequest_def sellRequest_def balanceOfRequest_def
        FLAP_PORTAL_ADDRESS_def)
  ultimately show ?thesis using run0 by simp
qed

end
